theory Spec2Isabelle
  imports Complex_Main
begin

section \<open>The stance-detection model driver (qa\_model.py)\<close>

text \<open>
  This theory embeds the control logic of \<^verbatim>\<open>FinalProject/code/qa_model.py\<close>: the feed
  dictionaries of the forward passes, the dev-set loss, the sampled score, the
  smoothed training loss, the checkpointing decisions and the epoch loop.

  Conventions of the embedding.
  \<^item> Python floats (and the numpy scalars returned by a session run) are modelled as
    real numbers: rounding, infinities and NaN are abstracted away.
  \<^item> Python integers are \<open>int\<close>; counts that the source obtains from a length are
    \<open>nat\<close>.
  \<^item> An exception is a value \<open>Inl e\<close> of a sum type; a normal result is \<open>Inr v\<close>.
  \<^item> The TensorFlow session, the batch generator, the label table and the scoring
    function are not part of the file; they are parameters of the model, collected in
    the record \<open>env\<close>.
\<close>

subsection \<open>Errors\<close>

datatype error = ZeroDivisionError | IndexError | ValueError | IOError

subsection \<open>Batches, placeholders and feed dictionaries\<close>

text \<open>
  A batch as the driver reads it: the four id/mask matrices, the label column
  \<open>ans_span\<close> (shape \<open>(batch_size, 1)\<close>) and the attribute \<open>batch_size\<close>.
\<close>

record batch =
  body_ids :: "int list list"
  body_mask :: "int list list"
  headline_ids :: "int list list"
  headline_mask :: "int list list"
  ans_span :: "int list list"
  batch_size :: nat

text \<open>The placeholders created by \<open>add_placeholders\<close>.\<close>

datatype placeholder = Context_ids | Context_mask | Qn_ids | Qn_mask | Stance | Keep_prob

datatype feed_value = Ints "int list list" | Scalar real

type_synonym input_feed = "placeholder \<Rightarrow> feed_value option"

text \<open>
  \<open>self.keep_prob = tf.placeholder_with_default(1.0, shape=())\<close>: a run that does not
  feed the placeholder reads the default.
\<close>

definition keep_prob_of :: "input_feed \<Rightarrow> feed_value" where
  "keep_prob_of feed = (case feed Keep_prob of None \<Rightarrow> Scalar 1 | Some v \<Rightarrow> v)"

text \<open>The feed built by \<open>run_train_iter\<close> (lines 266-272); \<open>dropout\<close> is \<open>FLAGS.dropout\<close>.\<close>

definition run_train_iter_feed :: "real \<Rightarrow> batch \<Rightarrow> input_feed" where
  "run_train_iter_feed dropout b =
     ((((((Map.empty
       (Context_ids \<mapsto> Ints (body_ids b)))
       (Context_mask \<mapsto> Ints (body_mask b)))
       (Qn_ids \<mapsto> Ints (headline_ids b)))
       (Qn_mask \<mapsto> Ints (headline_mask b)))
       (Stance \<mapsto> Ints (ans_span b)))
       (Keep_prob \<mapsto> Scalar (1 - dropout)))"

text \<open>The feed built by \<open>get_loss\<close> (lines 298-303).\<close>

definition get_loss_feed :: "batch \<Rightarrow> input_feed" where
  "get_loss_feed b =
     (((((Map.empty
       (Context_ids \<mapsto> Ints (body_ids b)))
       (Context_mask \<mapsto> Ints (body_mask b)))
       (Qn_ids \<mapsto> Ints (headline_ids b)))
       (Qn_mask \<mapsto> Ints (headline_mask b)))
       (Stance \<mapsto> Ints (ans_span b)))"

text \<open>
  The feed built by \<open>get_prob_dists\<close> (lines 324-328) from the attributes
  \<open>context_ids\<close>, \<open>context_mask\<close>, \<open>qn_ids\<close> and \<open>qn_mask\<close> that it reads from
  its batch.
\<close>

definition get_prob_dists_feed ::
  "int list list \<Rightarrow> int list list \<Rightarrow> int list list \<Rightarrow> int list list \<Rightarrow> input_feed" where
  "get_prob_dists_feed context_ids context_mask qn_ids qn_mask =
     ((((Map.empty
       (Context_ids \<mapsto> Ints context_ids))
       (Context_mask \<mapsto> Ints context_mask))
       (Qn_ids \<mapsto> Ints qn_ids))
       (Qn_mask \<mapsto> Ints qn_mask))"

text \<open>The feed built by \<open>get_class_prob_dist\<close> (lines 359-363).\<close>

definition get_class_prob_dist_feed :: "batch \<Rightarrow> input_feed" where
  "get_class_prob_dist_feed b =
     ((((Map.empty
       (Context_ids \<mapsto> Ints (body_ids b)))
       (Context_mask \<mapsto> Ints (body_mask b)))
       (Qn_ids \<mapsto> Ints (headline_ids b)))
       (Qn_mask \<mapsto> Ints (headline_mask b)))"

subsection \<open>Configuration and collaborators\<close>

text \<open>The fields of \<open>FLAGS\<close> that the driver reads.\<close>

record flags =
  num_epochs :: int
  print_every :: int
  save_every :: int
  eval_every :: int
  keep :: nat
  dropout :: real
  train_dir :: string

text \<open>
  The collaborators. \<open>'s\<close> is the state of the TensorFlow session (the parameters and
  the global step).
  \<^item> \<open>run_updates s feed\<close> is \<open>session.run\<close> on the training fetches: it returns the
    batch loss, the global step after the update, and the session after the update.
  \<^item> \<open>run_loss s feed\<close> and \<open>run_probdist_class s feed\<close> are \<open>session.run\<close> on
    \<open>[self.loss]\<close> and on \<open>[self.probdist_class]\<close>; they read the session only.
  \<^item> \<open>batch_generator body headline ans discard_long\<close> is the list of batches that
    \<open>custom_get_batch_generator\<close> yields for these files.
  \<^item> \<open>LABELS\<close> and \<open>report_score\<close> come from \<open>utils.score\<close>.
  \<^item> \<open>disk_ok path step\<close> tells whether a checkpoint can be written.
\<close>

record 's env =
  FLAGS :: flags
  LABELS :: "string list"
  batch_generator :: "string \<Rightarrow> string \<Rightarrow> string \<Rightarrow> bool \<Rightarrow> batch list"
  run_updates :: "'s \<Rightarrow> input_feed \<Rightarrow> (real \<times> int) \<times> 's"
  run_loss :: "'s \<Rightarrow> input_feed \<Rightarrow> real"
  run_probdist_class :: "'s \<Rightarrow> input_feed \<Rightarrow> real list list"
  report_score :: "string list \<Rightarrow> string list \<Rightarrow> error + real"
  disk_ok :: "string \<Rightarrow> int \<Rightarrow> bool"

subsection \<open>Forward passes\<close>

text \<open>\<open>run_train_iter\<close> (lines 250-283); the norms it also fetches are only logged.\<close>

definition run_train_iter :: "'s env \<Rightarrow> 's \<Rightarrow> batch \<Rightarrow> (real \<times> int) \<times> 's" where
  "run_train_iter e s b = run_updates e s (run_train_iter_feed (dropout (FLAGS e)) b)"

text \<open>\<open>get_loss\<close> (lines 286-310).\<close>

definition get_loss :: "'s env \<Rightarrow> 's \<Rightarrow> batch \<Rightarrow> real" where
  "get_loss e s b = run_loss e s (get_loss_feed b)"

text \<open>\<open>get_class_prob_dist\<close> (lines 357-368).\<close>

definition get_class_prob_dist :: "'s env \<Rightarrow> 's \<Rightarrow> batch \<Rightarrow> real list list" where
  "get_class_prob_dist e s b = run_probdist_class e s (get_class_prob_dist_feed b)"

text \<open>
  \<open>np.argmax\<close> of one row: the first position of the largest entry; an empty row
  raises \<open>ValueError\<close>.
\<close>

fun argmax_from :: "nat \<Rightarrow> real \<Rightarrow> nat \<Rightarrow> real list \<Rightarrow> nat" where
  "argmax_from best bv i [] = best"
| "argmax_from best bv i (x # xs) =
     (if bv < x then argmax_from i x (Suc i) xs else argmax_from best bv (Suc i) xs)"

definition argmax :: "real list \<Rightarrow> error + nat" where
  "argmax row = (case row of [] \<Rightarrow> Inl ValueError | x # xs \<Rightarrow> Inr (argmax_from 0 x 1 xs))"

text \<open>A list comprehension whose element expression may raise: the first error wins.\<close>

fun map_err :: "('a \<Rightarrow> error + 'b) \<Rightarrow> 'a list \<Rightarrow> error + 'b list" where
  "map_err f [] = Inr []"
| "map_err f (x # xs) =
     (case f x of
        Inl err \<Rightarrow> Inl err
      | Inr y \<Rightarrow> (case map_err f xs of Inl err \<Rightarrow> Inl err | Inr ys \<Rightarrow> Inr (y # ys)))"

text \<open>\<open>get_class\<close> (lines 370-374): \<open>np.argmax(probdist_class, axis=1)\<close>.\<close>

definition get_class :: "'s env \<Rightarrow> 's \<Rightarrow> batch \<Rightarrow> error + nat list" where
  "get_class e s b = map_err argmax (get_class_prob_dist e s b)"

subsection \<open>Dev-set loss\<close>

text \<open>
  The loop of \<open>custom_get_dev_loss\<close> (lines 398-404): it appends
  \<open>loss * curr_batch_size\<close> and \<open>curr_batch_size\<close> to the two lists.
\<close>

fun dev_loss_loop :: "'s env \<Rightarrow> 's \<Rightarrow> real list \<times> nat list \<Rightarrow> batch list \<Rightarrow> real list \<times> nat list" where
  "dev_loss_loop e s (loss_per_batch, batch_lengths) [] = (loss_per_batch, batch_lengths)"
| "dev_loss_loop e s (loss_per_batch, batch_lengths) (b # bs) =
     (let loss = get_loss e s b;
          curr_batch_size = batch_size b
      in dev_loss_loop e s
           (loss_per_batch @ [loss * real curr_batch_size], batch_lengths @ [curr_batch_size]) bs)"

text \<open>
  \<open>custom_get_dev_loss\<close> (lines 378-414). The final division is a float division by
  \<open>float(total_num_examples)\<close>; it raises \<open>ZeroDivisionError\<close> when the total is zero.
  (The generator yields no batch without an example, so the total is zero exactly when
  there is no batch.)
\<close>

definition custom_get_dev_loss :: "'s env \<Rightarrow> 's \<Rightarrow> string \<Rightarrow> string \<Rightarrow> string \<Rightarrow> error + real" where
  "custom_get_dev_loss e s dev_body_path dev_headline_path dev_ans_path =
     (let (loss_per_batch, batch_lengths) =
            dev_loss_loop e s ([], [])
              (batch_generator e dev_body_path dev_headline_path dev_ans_path True);
          total_num_examples = sum_list batch_lengths
      in if total_num_examples = 0 then Inl ZeroDivisionError
         else Inr (sum_list loss_per_batch / real total_num_examples))"

subsection \<open>Sampled score\<close>

text \<open>Sequencing of computations that may raise.\<close>

definition bind_err :: "error + 'a \<Rightarrow> ('a \<Rightarrow> error + 'b) \<Rightarrow> error + 'b" where
  "bind_err m f = (case m of Inl err \<Rightarrow> Inl err | Inr v \<Rightarrow> f v)"

text \<open>
  \<open>LABELS[int(a)]\<close>: a negative index counts from the end of the list, an index out of
  range raises \<open>IndexError\<close>.
\<close>

definition py_index :: "'a list \<Rightarrow> int \<Rightarrow> error + 'a" where
  "py_index xs i =
     (if 0 \<le> i \<and> i < int (length xs) then Inr (xs ! nat i)
      else if i < 0 \<and> - int (length xs) \<le> i then Inr (xs ! nat (int (length xs) + i))
      else Inl IndexError)"

text \<open>
  \<open>m.reshape(n,)\<close> on a matrix: the entries in row order, \<open>ValueError\<close> unless there are
  exactly \<open>n\<close> of them.
\<close>

definition reshape_flat :: "int list list \<Rightarrow> nat \<Rightarrow> error + int list" where
  "reshape_flat m n = (if length (concat m) = n then Inr (concat m) else Inl ValueError)"

text \<open>The slice \<open>xs[:k]\<close>; a negative \<open>k\<close> drops the last \<open>-k\<close> elements.\<close>

definition py_prefix :: "'a list \<Rightarrow> int \<Rightarrow> 'a list" where
  "py_prefix xs k = (if 0 \<le> k then take (nat k) xs else take (length xs - nat (- k)) xs)"

text \<open>
  The first half of the loop body of \<open>check_score_cm\<close> (lines 430-437): the predicted
  and the actual labels of one batch.
\<close>

definition batch_labels :: "'s env \<Rightarrow> 's \<Rightarrow> batch \<Rightarrow> error + (string list \<times> string list)" where
  "batch_labels e s b =
     bind_err (get_class e s b) (\<lambda>pred_class.
     bind_err (map_err (\<lambda>a. py_index (LABELS e) (int a)) pred_class) (\<lambda>predicted.
     bind_err (reshape_flat (ans_span b) (batch_size b)) (\<lambda>actual_reshaped.
     bind_err (map_err (py_index (LABELS e)) actual_reshaped) (\<lambda>actual.
     Inr (predicted, actual)))))"

text \<open>
  The second half of the loop body (lines 441-452): the lists and the remaining count
  after one batch.
\<close>

definition accumulate ::
  "int \<Rightarrow> string list \<times> string list \<times> int \<Rightarrow> nat \<Rightarrow> string list \<Rightarrow> string list
   \<Rightarrow> string list \<times> string list \<times> int" where
  "accumulate num_samples st bsize predicted actual =
     (case st of (pred_list, actual_list, rem_count) \<Rightarrow>
        if num_samples = 0 then (pred_list @ predicted, actual_list @ actual, rem_count)
        else if int bsize \<le> rem_count
          then (pred_list @ predicted, actual_list @ actual, rem_count - int bsize)
          else (pred_list @ py_prefix predicted rem_count,
                actual_list @ py_prefix actual rem_count, 0))"

text \<open>
  The loop of \<open>check_score_cm\<close> (lines 428-455) over the batches that are left; the
  \<open>break\<close> is the branch that returns without looking at the remaining batches.
\<close>

fun check_score_cm_loop ::
  "'s env \<Rightarrow> 's \<Rightarrow> int \<Rightarrow> string list \<times> string list \<times> int \<Rightarrow> batch list
   \<Rightarrow> error + (string list \<times> string list \<times> int)" where
  "check_score_cm_loop e s num_samples st [] = Inr st"
| "check_score_cm_loop e s num_samples st (b # bs) =
     (case batch_labels e s b of
        Inl err \<Rightarrow> Inl err
      | Inr (predicted, actual) \<Rightarrow>
          (let st' = accumulate num_samples st (batch_size b) predicted actual
           in if num_samples \<noteq> 0 \<and> snd (snd st') = 0 then Inr st'
              else check_score_cm_loop e s num_samples st' bs))"

text \<open>
  \<open>check_score_cm\<close> (lines 417-463). The arguments \<open>dataset\<close> and \<open>print_to_screen\<close>
  only reach the log.
\<close>

definition check_score_cm :: "'s env \<Rightarrow> 's \<Rightarrow> string \<Rightarrow> string \<Rightarrow> string \<Rightarrow> int \<Rightarrow> error + real" where
  "check_score_cm e s body_path headline_path ans_path num_samples =
     bind_err (check_score_cm_loop e s num_samples ([], [], num_samples)
                 (batch_generator e body_path headline_path ans_path False))
       (\<lambda>(pred_list, actual_list, rem_count). report_score e actual_list pred_list)"

subsection \<open>Checkpoint savers\<close>

text \<open>
  A saver: its retention count and the steps of the checkpoints it holds, oldest first.
\<close>

record saver =
  max_to_keep :: nat
  checkpoints :: "int list"

text \<open>The savers created by \<open>QAModel.__init__\<close> (lines 78-80).\<close>

record qa_model =
  saver :: saver
  bestmodel_saver :: saver
  bestmodel_dev_loss_saver :: saver

definition init_savers :: "flags \<Rightarrow> qa_model" where
  "init_savers fl =
     \<lparr>saver = \<lparr>max_to_keep = keep fl, checkpoints = []\<rparr>,
      bestmodel_saver = \<lparr>max_to_keep = 1, checkpoints = []\<rparr>,
      bestmodel_dev_loss_saver = \<lparr>max_to_keep = 1, checkpoints = []\<rparr>\<rparr>"

text \<open>
  Modelled from the spec: the eviction of the checkpoint manager (\<open>tf.train.Saver\<close>,
  which is not part of the file). The spec: a save evicts the oldest entries beyond the
  slot's retention count.
\<close>

definition evict :: "nat \<Rightarrow> int list \<Rightarrow> int list" where
  "evict k steps = drop (length steps - k) steps"

text \<open>
  Modelled from the spec: what a successful save does to a slot. The spec: it writes the
  parameters tagged by step into the slot and evicts the oldest entries beyond the
  slot's retention count.
\<close>

definition retain :: "saver \<Rightarrow> int \<Rightarrow> saver" where
  "retain sv global_step =
     sv\<lparr>checkpoints := evict (max_to_keep sv) (checkpoints sv @ [global_step])\<rparr>"

text \<open>
  Modelled from the spec: the method \<open>save\<close> of the checkpoint manager
  (\<open>tf.train.Saver.save\<close>). The spec: an I/O failure during a save is fatal; otherwise
  the checkpoint is retained in the slot.
\<close>

definition saver_save :: "'s env \<Rightarrow> saver \<Rightarrow> string \<Rightarrow> int \<Rightarrow> error + saver" where
  "saver_save e sv path global_step =
     (if disk_ok e path global_step then Inr (retain sv global_step) else Inl IOError)"

subsection \<open>The training loop\<close>

text \<open>The six path arguments of \<open>custom_train\<close>.\<close>

record paths =
  train_body_path :: string
  train_headline_path :: string
  train_ans_path :: string
  dev_headline_path :: string
  dev_body_path :: string
  dev_ans_path :: string

text \<open>
  The variables of \<open>custom_train\<close> together with what it mutates: the session and the
  three savers.
\<close>

record 's train_state =
  exp_loss :: "real option"
  best_subm_score :: "real option"
  lowest_dev_loss :: "real option"
  epoch :: int
  session :: 's
  savers :: qa_model

text \<open>
  Lines 519-522. The test \<open>not exp_loss\<close> is Python truthiness: it holds for \<open>None\<close>
  and for the float zero.
\<close>

definition update_exp_loss :: "real option \<Rightarrow> real \<Rightarrow> real option" where
  "update_exp_loss smoothed loss =
     (case smoothed of
        None \<Rightarrow> Some loss
      | Some l \<Rightarrow> if l = 0 then Some loss else Some (0.99 * l + 0.01 * loss))"

text \<open>
  \<open>global_step % period\<close> (lines 525, 531, 536). The global step is fetched by the
  session run, so it is a numpy integer and the remainder is numpy's: its sign follows
  the divisor, and a zero divisor gives \<open>0\<close> (with a warning) instead of raising.
\<close>

definition np_mod :: "int \<Rightarrow> int \<Rightarrow> int" where
  "np_mod a b = (if b = 0 then 0 else a mod b)"

text \<open>\<open>os.path.join\<close> of a directory and a relative name.\<close>

definition path_join :: "string \<Rightarrow> string \<Rightarrow> string" where
  "path_join d f = (if d = [] \<or> last d = CHR ''/'' then d @ f else d @ ''/'' @ f)"

definition checkpoint_path :: "flags \<Rightarrow> string" where
  "checkpoint_path fl = path_join (train_dir fl) ''qa.ckpt''"

definition bestmodel_ckpt_path :: "flags \<Rightarrow> string" where
  "bestmodel_ckpt_path fl = path_join (path_join (train_dir fl) ''best_checkpoint'') ''qa_best.ckpt''"

definition bestmodel_dev_loss_ckpt_path :: "flags \<Rightarrow> string" where
  "bestmodel_dev_loss_ckpt_path fl =
     path_join (path_join (train_dir fl) ''best_checkpoint_dev_loss'') ''qa_best_dev_loss.ckpt''"

text \<open>Lines 561-565: early stopping on the submission score.\<close>

definition early_stopping_score :: "'s env \<Rightarrow> 's train_state \<Rightarrow> real \<Rightarrow> int \<Rightarrow> error + 's train_state" where
  "early_stopping_score e st dev_score global_step =
     (if (case best_subm_score st of None \<Rightarrow> True | Some best \<Rightarrow> best < dev_score)
      then bind_err
             (saver_save e (bestmodel_saver (savers st)) (bestmodel_ckpt_path (FLAGS e)) global_step)
             (\<lambda>sv. Inr (st\<lparr>best_subm_score := Some dev_score,
                            savers := (savers st)\<lparr>bestmodel_saver := sv\<rparr>\<rparr>))
      else Inr st)"

text \<open>Lines 567-570: early stopping on the dev loss.\<close>

definition early_stopping_loss :: "'s env \<Rightarrow> 's train_state \<Rightarrow> real \<Rightarrow> int \<Rightarrow> error + 's train_state" where
  "early_stopping_loss e st dev_loss global_step =
     (if (case lowest_dev_loss st of None \<Rightarrow> True | Some lowest \<Rightarrow> dev_loss < lowest)
      then bind_err
             (saver_save e (bestmodel_dev_loss_saver (savers st))
                (bestmodel_dev_loss_ckpt_path (FLAGS e)) global_step)
             (\<lambda>sv. Inr (st\<lparr>lowest_dev_loss := Some dev_loss,
                            savers := (savers st)\<lparr>bestmodel_dev_loss_saver := sv\<rparr>\<rparr>))
      else Inr st)"

text \<open>Lines 561-570: the two tests, one after the other.\<close>

definition early_stopping ::
  "'s env \<Rightarrow> 's train_state \<Rightarrow> real \<Rightarrow> real \<Rightarrow> int \<Rightarrow> error + 's train_state" where
  "early_stopping e st dev_score dev_loss global_step =
     bind_err (early_stopping_score e st dev_score global_step)
       (\<lambda>st'. early_stopping_loss e st' dev_loss global_step)"

text \<open>
  Lines 540-570: the evaluation that is run every \<open>eval_every\<close> steps. The summaries
  written to TensorBoard are not modelled.
\<close>

definition evaluate :: "'s env \<Rightarrow> paths \<Rightarrow> 's train_state \<Rightarrow> int \<Rightarrow> error + 's train_state" where
  "evaluate e p st global_step =
     bind_err (custom_get_dev_loss e (session st)
                 (dev_body_path p) (dev_headline_path p) (dev_ans_path p)) (\<lambda>dev_loss.
     bind_err (check_score_cm e (session st)
                 (train_body_path p) (train_headline_path p) (train_ans_path p) 1000) (\<lambda>train_score.
     bind_err (check_score_cm e (session st)
                 (dev_body_path p) (dev_headline_path p) (dev_ans_path p) 0) (\<lambda>dev_score.
     early_stopping e st dev_score dev_loss global_step)))"

text \<open>Lines 531-533: the periodic save.\<close>

definition periodic_save :: "'s env \<Rightarrow> 's train_state \<Rightarrow> int \<Rightarrow> error + 's train_state" where
  "periodic_save e st global_step =
     bind_err (saver_save e (saver (savers st)) (checkpoint_path (FLAGS e)) global_step)
       (\<lambda>sv. Inr (st\<lparr>savers := (savers st)\<lparr>saver := sv\<rparr>\<rparr>))"

text \<open>
  Lines 512-570: the body of the loop over the batches. The log line of lines 525-528,
  with the test that guards it, changes nothing and is not modelled.
\<close>

definition train_step :: "'s env \<Rightarrow> paths \<Rightarrow> 's train_state \<Rightarrow> batch \<Rightarrow> error + 's train_state" where
  "train_step e p st b =
     (case run_train_iter e (session st) b of
        ((loss, global_step), s') \<Rightarrow>
          (let st1 = st\<lparr>session := s', exp_loss := update_exp_loss (exp_loss st) loss\<rparr>
           in bind_err (if np_mod global_step (save_every (FLAGS e)) = 0
                        then periodic_save e st1 global_step else Inr st1) (\<lambda>st2.
              if np_mod global_step (eval_every (FLAGS e)) = 0
              then evaluate e p st2 global_step else Inr st2)))"

text \<open>Lines 510-570: the loop over the batches of one epoch.\<close>

fun train_batches :: "'s env \<Rightarrow> paths \<Rightarrow> 's train_state \<Rightarrow> batch list \<Rightarrow> error + 's train_state" where
  "train_batches e p st [] = Inr st"
| "train_batches e p st (b # bs) =
     (case train_step e p st b of
        Inl err \<Rightarrow> Inl err
      | Inr st' \<Rightarrow> train_batches e p st' bs)"

text \<open>Lines 506-582: one pass through the body of the \<open>while\<close> loop.\<close>

definition train_epoch :: "'s env \<Rightarrow> paths \<Rightarrow> 's train_state \<Rightarrow> error + 's train_state" where
  "train_epoch e p st =
     train_batches e p (st\<lparr>epoch := epoch st + 1\<rparr>)
       (batch_generator e (train_body_path p) (train_headline_path p) (train_ans_path p) True)"

text \<open>
  Lines 505-582: the \<open>while\<close> loop. It need not terminate, so its result is optional:
  \<open>None\<close> stands for a run that never returns.
\<close>

partial_function (option) train_loop ::
  "'s env \<Rightarrow> paths \<Rightarrow> 's train_state \<Rightarrow> (error + 's train_state) option" where
  "train_loop e p st =
     (if num_epochs (FLAGS e) = 0 \<or> epoch st < num_epochs (FLAGS e)
      then (case train_epoch e p st of
              Inl err \<Rightarrow> Some (Inl err)
            | Inr st' \<Rightarrow> train_loop e p st')
      else Some (Inr st))"

declare train_loop.simps [code]

text \<open>\<open>custom_train\<close> (lines 466-584) on the model object \<open>m\<close> and the session \<open>s\<close>.\<close>

definition init_state :: "qa_model \<Rightarrow> 's \<Rightarrow> 's train_state" where
  "init_state m s =
     \<lparr>exp_loss = None, best_subm_score = None, lowest_dev_loss = None, epoch = 0,
      session = s, savers = m\<rparr>"

definition custom_train :: "'s env \<Rightarrow> qa_model \<Rightarrow> 's \<Rightarrow> paths \<Rightarrow> (error + 's train_state) option" where
  "custom_train e m s p = train_loop e p (init_state m s)"

subsection \<open>Notions used in the statements\<close>

text \<open>
  \<open>labelled e s b (p, a)\<close>: the first half of the loop body of \<open>check_score_cm\<close>
  succeeds on the batch \<open>b\<close> with the predicted labels \<open>p\<close> and the actual labels \<open>a\<close>,
  one of each per example of the batch.
\<close>

definition labelled :: "'s env \<Rightarrow> 's \<Rightarrow> batch \<Rightarrow> string list \<times> string list \<Rightarrow> bool" where
  "labelled e s b pa =
     (batch_labels e s b = Inr pa \<and> length (fst pa) = batch_size b \<and> length (snd pa) = batch_size b)"

text \<open>
  \<open>run_epochs e p k st\<close>: \<open>k\<close> passes through the body of the \<open>while\<close> loop of
  \<open>custom_train\<close>, started in \<open>st\<close>; the first failing pass ends the iteration.
\<close>

fun run_epochs :: "'s env \<Rightarrow> paths \<Rightarrow> nat \<Rightarrow> 's train_state \<Rightarrow> error + 's train_state" where
  "run_epochs e p 0 st = Inr st"
| "run_epochs e p (Suc k) st =
     (case train_epoch e p st of
        Inl err \<Rightarrow> Inl err
      | Inr st' \<Rightarrow> run_epochs e p k st')"

text \<open>
  \<open>slots_ok fl m\<close>: the three savers of the model object still have the retention counts
  that \<open>QAModel.__init__\<close> gave them, and none holds more checkpoints than its count.
\<close>

definition slots_ok :: "flags \<Rightarrow> qa_model \<Rightarrow> bool" where
  "slots_ok fl m =
     (max_to_keep (saver m) = keep fl \<and> length (checkpoints (saver m)) \<le> keep fl
      \<and> max_to_keep (bestmodel_saver m) = 1 \<and> length (checkpoints (bestmodel_saver m)) \<le> 1
      \<and> max_to_keep (bestmodel_dev_loss_saver m) = 1
      \<and> length (checkpoints (bestmodel_dev_loss_saver m)) \<le> 1)"

subsection \<open>An example environment\<close>

text \<open>
  A small concrete instance of the collaborators, on which the functions above can be
  evaluated. The session is the number of training steps done so far, so the global
  step after an update is its successor. \<open>ex_batch tag labels\<close> is a batch with one
  example per entry of \<open>labels\<close>; the loss of a batch is its \<open>tag\<close>, and the class
  distribution of every example is \<open>[0.1, 0.2, 0.6, 0.1]\<close>. The score counts the examples
  whose predicted label is the actual one, and, as a ratio would, fails on no examples.
  The file \<open>big\<close> ends with a batch whose label \<open>7\<close> is not in the label table.
\<close>

definition ex_batch :: "int \<Rightarrow> int list \<Rightarrow> batch" where
  "ex_batch tag labels =
     \<lparr>body_ids = map (\<lambda>l. [tag]) labels, body_mask = map (\<lambda>l. [1]) labels,
      headline_ids = map (\<lambda>l. [tag]) labels, headline_mask = map (\<lambda>l. [1]) labels,
      ans_span = map (\<lambda>l. [l]) labels, batch_size = length labels\<rparr>"

definition ex_loss :: "input_feed \<Rightarrow> real" where
  "ex_loss feed =
     (case feed Context_ids of Some (Ints ((x # row) # rows)) \<Rightarrow> real_of_int x | _ \<Rightarrow> 0)"

definition ex_probdist :: "input_feed \<Rightarrow> real list list" where
  "ex_probdist feed =
     (case feed Context_ids of Some (Ints rows) \<Rightarrow> map (\<lambda>r. [0.1, 0.2, 0.6, 0.1]) rows | _ \<Rightarrow> [])"

definition ex_report_score :: "string list \<Rightarrow> string list \<Rightarrow> error + real" where
  "ex_report_score actual predicted =
     (if actual = [] then Inl ZeroDivisionError
      else Inr (real (length (filter (\<lambda>(a, p). a = p) (zip actual predicted)))))"

definition ex_flags :: "int \<Rightarrow> int \<Rightarrow> flags" where
  "ex_flags n ev =
     \<lparr>num_epochs = n, print_every = 1, save_every = 1, eval_every = ev, keep = 3,
      dropout = 0.15, train_dir = ''exp''\<rparr>"

definition ex_env :: "flags \<Rightarrow> (string \<Rightarrow> batch list) \<Rightarrow> (string \<Rightarrow> int \<Rightarrow> bool) \<Rightarrow> nat env" where
  "ex_env fl files ok =
     \<lparr>FLAGS = fl,
      LABELS = [''agree'', ''disagree'', ''discuss'', ''unrelated''],
      batch_generator = (\<lambda>body headline ans discard_long. files body),
      run_updates = (\<lambda>s feed. ((ex_loss feed, int (Suc s)), Suc s)),
      run_loss = (\<lambda>s feed. ex_loss feed),
      run_probdist_class = (\<lambda>s feed. ex_probdist feed),
      report_score = ex_report_score,
      disk_ok = ok\<rparr>"

definition ex_files :: "string \<Rightarrow> batch list" where
  "ex_files body =
     (if body = ''train'' then [ex_batch 0 [2, 2], ex_batch 5 [2, 3]]
      else if body = ''dev'' then [ex_batch 2 [2, 0, 2], ex_batch 10 [1]]
      else if body = ''big'' then [ex_batch 1 [0, 1, 2, 3], ex_batch 1 [3, 2, 1, 0], ex_batch 1 [7]]
      else [])"

definition ex_paths :: "string \<Rightarrow> string \<Rightarrow> paths" where
  "ex_paths train dev =
     \<lparr>train_body_path = train, train_headline_path = ''train_h'', train_ans_path = ''train_a'',
      dev_headline_path = ''dev_h'', dev_body_path = dev, dev_ans_path = ''dev_a''\<rparr>"

section \<open>Auxiliary facts\<close>

subsection \<open>Unfolding sets for evaluation\<close>

lemmas ex_defs = ex_batch_def ex_loss_def ex_probdist_def ex_report_score_def ex_flags_def
  ex_env_def ex_files_def ex_paths_def

lemmas fwd_defs = run_train_iter_def run_train_iter_feed_def get_loss_def get_loss_feed_def
  get_class_def get_class_prob_dist_def get_class_prob_dist_feed_def argmax_def

lemmas score_defs = check_score_cm_def batch_labels_def bind_err_def py_index_def
  reshape_flat_def accumulate_def py_prefix_def

lemmas train_defs = custom_train_def init_state_def init_savers_def train_epoch_def train_step_def
  update_exp_loss_def np_mod_def periodic_save_def saver_save_def retain_def evict_def
  evaluate_def early_stopping_def early_stopping_score_def early_stopping_loss_def
  custom_get_dev_loss_def checkpoint_path_def bestmodel_ckpt_path_def
  bestmodel_dev_loss_ckpt_path_def path_join_def

lemmas label_defs = batch_labels_def get_class_def get_class_prob_dist_def
  get_class_prob_dist_feed_def argmax_def bind_err_def py_index_def reshape_flat_def

subsection \<open>The feeds of the forward passes\<close>

text \<open>
  The feeds of \<open>get_loss\<close>, \<open>get_class_prob_dist\<close> and \<open>get_prob_dists\<close> have no entry
  for the keep probability, so these runs read its default \<open>1\<close>; the feed of
  \<open>run_train_iter\<close> sets it to \<open>1 - dropout\<close>. What the graph computes from the keep
  probability is not part of the file.
\<close>

lemma evaluation_feeds_lack_keep_prob:
  "get_loss_feed b Keep_prob = None
   \<and> get_class_prob_dist_feed b Keep_prob = None
   \<and> get_prob_dists_feed context_ids context_mask qn_ids qn_mask Keep_prob = None
   \<and> keep_prob_of (get_loss_feed b) = Scalar 1
   \<and> keep_prob_of (get_class_prob_dist_feed b) = Scalar 1
   \<and> run_train_iter_feed (dropout (FLAGS e)) b Keep_prob = Some (Scalar (1 - dropout (FLAGS e)))"
  by (simp add: get_loss_feed_def get_class_prob_dist_feed_def get_prob_dists_feed_def
      run_train_iter_feed_def keep_prob_of_def)

subsection \<open>Sequencing\<close>

lemma bind_err_Inr_iff:
  "bind_err m f = Inr y \<longleftrightarrow> (\<exists>v. m = Inr v \<and> f v = Inr y)"
  by (cases m) (simp_all add: bind_err_def)

lemma bind_err_Inl: "m = Inl err \<Longrightarrow> bind_err m f = Inl err"
  by (simp add: bind_err_def)

lemma bind_err_Inr: "m = Inr v \<Longrightarrow> bind_err m f = f v"
  by (simp add: bind_err_def)

subsection \<open>The dev-set loss\<close>

lemma dev_loss_loop_eq:
  "dev_loss_loop e s (ls, ns) bs =
     (ls @ map (\<lambda>b. get_loss e s b * real (batch_size b)) bs, ns @ map batch_size bs)"
  by (induction bs arbitrary: ls ns) (simp_all add: Let_def)

lemma custom_get_dev_loss_eq:
  "custom_get_dev_loss e s bp hp ap =
     (let bs = batch_generator e bp hp ap True;
          total = (\<Sum>b\<leftarrow>bs. batch_size b)
      in if total = 0 then Inl ZeroDivisionError
         else Inr ((\<Sum>b\<leftarrow>bs. get_loss e s b * real (batch_size b)) / real total))"
  by (simp add: custom_get_dev_loss_def dev_loss_loop_eq Let_def)

lemma sum_list_const_size:
  "\<forall>b\<in>set bs. batch_size b = n \<Longrightarrow> (\<Sum>b\<leftarrow>bs. batch_size b) = length bs * n"
  by (induction bs) simp_all

lemma sum_list_const_loss:
  "\<forall>b\<in>set bs. batch_size b = n \<Longrightarrow>
     (\<Sum>b\<leftarrow>bs. f b * real (batch_size b)) = (\<Sum>b\<leftarrow>bs. f b) * real n"
  by (induction bs) (simp_all add: algebra_simps)

subsection \<open>The loop of the sampled score\<close>

text \<open>
  With \<open>num_samples = 0\<close> the loop appends the labels of every batch.
\<close>

lemma loop_all:
  "list_all2 (\<lambda>b pa. batch_labels e s b = Inr pa) bs pas \<Longrightarrow>
   check_score_cm_loop e s 0 (pl, al, rc) bs =
     Inr (pl @ concat (map fst pas), al @ concat (map snd pas), rc)"
proof (induction bs arbitrary: pl al rc pas)
  case Nil
  then show ?case by simp
next
  case (Cons b bs)
  then obtain pa pas' where pas: "pas = pa # pas'" and b: "batch_labels e s b = Inr pa"
    and rest: "list_all2 (\<lambda>b pa. batch_labels e s b = Inr pa) bs pas'"
    by (auto simp: list_all2_Cons1)
  obtain p a where pa: "pa = (p, a)" by (cases pa)
  show ?case
    using Cons.IH [OF rest] by (simp add: pas b pa accumulate_def)
qed

text \<open>
  With a positive remaining count \<open>rc\<close> the loop appends the first \<open>rc\<close> label pairs of
  the batches, and the count that is left is \<open>rc\<close> less what was taken.
\<close>

lemma loop_limit:
  "list_all2 (labelled e s) bs pas \<Longrightarrow> n \<noteq> 0 \<Longrightarrow> 0 < rc \<Longrightarrow>
   check_score_cm_loop e s n (pl, al, rc) bs =
     Inr (pl @ take (nat rc) (concat (map fst pas)),
          al @ take (nat rc) (concat (map snd pas)),
          rc - min rc (int (sum_list (map batch_size bs))))"
proof (induction bs arbitrary: pl al rc pas)
  case Nil
  then show ?case by simp
next
  case (Cons b bs)
  then obtain pa pas' where pas: "pas = pa # pas'" and b: "labelled e s b pa"
    and rest: "list_all2 (labelled e s) bs pas'"
    by (auto simp: list_all2_Cons1)
  obtain p a where pa: "pa = (p, a)" by (cases pa)
  from b pa have bl: "batch_labels e s b = Inr (p, a)"
    and lp: "length p = batch_size b" and la: "length a = batch_size b"
    by (simp_all add: labelled_def)
  show ?case
  proof (cases "int (batch_size b) \<le> rc")
    case fits: True
    show ?thesis
    proof (cases "rc = int (batch_size b)")
      case True
      then show ?thesis
        using Cons.prems(2) fits by (simp add: pas pa bl lp la accumulate_def)
    next
      case False
      with fits have pos: "0 < rc - int (batch_size b)" by simp
      have tk: "nat (rc - int (batch_size b)) = nat rc - batch_size b"
        by simp
      show ?thesis
        using Cons.IH [OF rest Cons.prems(2) pos] fits False Cons.prems(2)
        by (simp add: pas pa bl lp la accumulate_def tk)
    qed
  next
    case False
    then show ?thesis
      using Cons.prems(2,3) by (simp add: pas pa bl lp la accumulate_def py_prefix_def)
  qed
qed

text \<open>
  Once the batches seen hold \<open>rc\<close> examples, what follows them is never looked at.
\<close>

lemma loop_stops:
  "list_all2 (labelled e s) bs pas \<Longrightarrow> n \<noteq> 0 \<Longrightarrow> 0 < rc \<Longrightarrow>
   rc \<le> int (sum_list (map batch_size bs)) \<Longrightarrow>
   check_score_cm_loop e s n (pl, al, rc) (bs @ cs) = check_score_cm_loop e s n (pl, al, rc) bs"
proof (induction bs arbitrary: pl al rc pas)
  case Nil
  then show ?case by simp
next
  case (Cons b bs)
  then obtain pa pas' where pas: "pas = pa # pas'" and b: "labelled e s b pa"
    and rest: "list_all2 (labelled e s) bs pas'"
    by (auto simp: list_all2_Cons1)
  obtain p a where pa: "pa = (p, a)" by (cases pa)
  from b pa have bl: "batch_labels e s b = Inr (p, a)"
    by (simp_all add: labelled_def)
  show ?case
  proof (cases "int (batch_size b) < rc")
    case True
    then have pos: "0 < rc - int (batch_size b)" by simp
    have le: "rc - int (batch_size b) \<le> int (sum_list (map batch_size bs))"
      using Cons.prems(4) by simp
    show ?thesis
      using Cons.IH [OF rest Cons.prems(2) pos le] True Cons.prems(2)
      by (simp add: bl accumulate_def)
  next
    case False
    then show ?thesis
      using Cons.prems(2,3) by (simp add: bl accumulate_def)
  qed
qed

lemma labelled_lengths:
  assumes "list_all2 (labelled e s) bs pas"
  shows "length (concat (map fst pas)) = sum_list (map batch_size bs)"
    and "length (concat (map snd pas)) = sum_list (map batch_size bs)"
  using assms by (induction rule: list_all2_induct) (simp_all add: labelled_def)

text \<open>
  \<open>check_score_cm\<close> runs the loop from \<open>([], [], num_samples)\<close> over the batches of the
  generator and scores what the loop has collected, the actual labels first.
\<close>

lemma check_score_cm_all:
  assumes "batch_generator e body_path headline_path ans_path False = bs"
    and "list_all2 (labelled e s) bs pas"
  shows "check_score_cm e s body_path headline_path ans_path 0 =
           report_score e (concat (map snd pas)) (concat (map fst pas))"
proof -
  from assms(2) have "list_all2 (\<lambda>b pa. batch_labels e s b = Inr pa) bs pas"
    by (rule list_all2_mono) (simp add: labelled_def)
  from loop_all [OF this, of "[]" "[]" 0] assms(1) show ?thesis
    by (simp add: check_score_cm_def bind_err_def)
qed

lemma check_score_cm_limited:
  assumes "batch_generator e body_path headline_path ans_path False = bs @ cs"
    and "list_all2 (labelled e s) bs pas"
    and "0 < n" and "cs = [] \<or> n \<le> int (sum_list (map batch_size bs))"
  shows "check_score_cm e s body_path headline_path ans_path n =
           report_score e (take (nat n) (concat (map snd pas))) (take (nat n) (concat (map fst pas)))"
proof -
  have ne: "n \<noteq> 0" using assms(3) by simp
  have "check_score_cm_loop e s n ([], [], n) (bs @ cs) = check_score_cm_loop e s n ([], [], n) bs"
    using assms(4)
  proof
    assume "cs = []"
    then show ?thesis by simp
  next
    assume "n \<le> int (sum_list (map batch_size bs))"
    with assms(2,3) ne show ?thesis by (intro loop_stops) simp_all
  qed
  with loop_limit [OF assms(2) ne assms(3), of "[]" "[]"] assms(1) show ?thesis
    by (simp add: check_score_cm_def bind_err_def)
qed

subsection \<open>The smoothed loss\<close>

lemma update_exp_loss_first: "update_exp_loss None x = Some x"
  by (simp add: update_exp_loss_def)

lemma update_exp_loss_next: "l \<noteq> 0 \<Longrightarrow> update_exp_loss (Some l) x = Some (0.99 * l + 0.01 * x)"
  by (simp add: update_exp_loss_def)

text \<open>
  As long as the seed is positive and the later losses are not negative, the smoothed
  loss never becomes zero, every update is the weighted one, and the value after
  \<open>n\<close> further losses is the seed weighted by \<open>0.99 ^ n\<close> plus the losses weighted by
  \<open>0.01 * 0.99 ^ k\<close>, the most recent one with \<open>k = 0\<close>.
\<close>

lemma smoothed_closed_form:
  assumes "0 < l" and "\<forall>x\<in>set xs. 0 \<le> x"
  shows "foldl update_exp_loss (Some l) xs =
           Some (0.99 ^ length xs * l
                 + (\<Sum>i<length xs. 0.01 * 0.99 ^ (length xs - 1 - i) * xs ! i))
         \<and> 0 < 0.99 ^ length xs * l
                 + (\<Sum>i<length xs. 0.01 * 0.99 ^ (length xs - 1 - i) * xs ! i)"
  using assms(2)
proof (induction xs rule: rev_induct)
  case Nil
  then show ?case using assms(1) by simp
next
  case (snoc x xs)
  let ?n = "length xs"
  let ?v = "0.99 ^ ?n * l + (\<Sum>i<?n. 0.01 * 0.99 ^ (?n - 1 - i) * xs ! i)"
  from snoc have IH: "foldl update_exp_loss (Some l) xs = Some ?v" and pos: "0 < ?v" and x: "0 \<le> x"
    by simp_all
  have "(\<Sum>i<?n. 0.01 * 0.99 ^ (Suc ?n - 1 - i) * (xs @ [x]) ! i)
      = (\<Sum>i<?n. 0.99 * (0.01 * 0.99 ^ (?n - 1 - i) * xs ! i))"
  proof (rule sum.cong [OF refl])
    fix i assume "i \<in> {..<?n}"
    then have i: "i < ?n" by simp
    then have "Suc ?n - 1 - i = Suc (?n - 1 - i)" by simp
    then show "0.01 * 0.99 ^ (Suc ?n - 1 - i) * (xs @ [x]) ! i
             = 0.99 * (0.01 * 0.99 ^ (?n - 1 - i) * xs ! i)"
      using i by (simp add: nth_append)
  qed
  then have sum: "(\<Sum>i<Suc ?n. 0.01 * 0.99 ^ (Suc ?n - 1 - i) * (xs @ [x]) ! i)
      = 0.99 * (\<Sum>i<?n. 0.01 * 0.99 ^ (?n - 1 - i) * xs ! i) + 0.01 * x"
    by (simp add: sum_distrib_left)
  have eq: "0.99 ^ Suc ?n * l + (\<Sum>i<Suc ?n. 0.01 * 0.99 ^ (Suc ?n - 1 - i) * (xs @ [x]) ! i)
      = 0.99 * ?v + 0.01 * x"
    unfolding sum by (simp add: algebra_simps)
  have len: "length (xs @ [x]) = Suc ?n" by simp
  have val: "foldl update_exp_loss (Some l) (xs @ [x]) = Some (0.99 * ?v + 0.01 * x)"
    using IH pos by (simp add: update_exp_loss_def)
  have "0 < 0.99 * ?v + 0.01 * x"
  proof (rule add_pos_nonneg)
    show "0 < 0.99 * ?v" using pos by (intro mult_pos_pos) simp_all
    show "0 \<le> 0.01 * x" using x by simp
  qed
  with val show ?case unfolding len eq by blast
qed

subsection \<open>Savers\<close>

lemma length_evict: "length (evict k steps) = min k (length steps)"
  by (simp add: evict_def)

lemma evict_evict_append: "evict k (evict k xs @ [y]) = evict k (xs @ [y])"
  by (cases "k \<le> length xs") (simp_all add: evict_def Suc_diff_le)

lemma last_evict: "0 < k \<Longrightarrow> evict k (xs @ [g]) = evict (k - 1) xs @ [g]"
  by (cases "k \<le> length xs") (simp_all add: evict_def Suc_diff_le)

lemma retain_max_to_keep: "max_to_keep (retain sv g) = max_to_keep sv"
  by (simp add: retain_def)

lemma checkpoints_retain:
  "checkpoints (retain sv g) = evict (max_to_keep sv) (checkpoints sv @ [g])"
  by (simp add: retain_def)

lemma retain_length: "max_to_keep sv = k \<Longrightarrow> length (checkpoints (retain sv g)) \<le> k"
  by (simp add: retain_def length_evict)

lemma retain_one: "max_to_keep sv = 1 \<Longrightarrow> checkpoints (retain sv g) = [g]"
  by (simp add: retain_def last_evict) (simp add: evict_def)

lemma foldl_retain_max_to_keep: "max_to_keep (foldl retain sv steps) = max_to_keep sv"
  by (induction steps arbitrary: sv) (simp_all add: retain_max_to_keep)

lemma foldl_retain_checkpoints:
  "checkpoints (foldl retain sv steps) = 
     (if steps = [] then checkpoints sv else evict (max_to_keep sv) (checkpoints sv @ steps))"
proof (induction steps rule: rev_induct)
  case Nil
  then show ?case by simp
next
  case (snoc g steps)
  show ?case
  proof (cases "steps = []")
    case True
    then show ?thesis by (simp add: retain_def)
  next
    case False
    have "checkpoints (foldl retain sv (steps @ [g]))
        = evict (max_to_keep sv) (evict (max_to_keep sv) (checkpoints sv @ steps) @ [g])"
      using snoc False by (simp add: checkpoints_retain foldl_retain_max_to_keep)
    then show ?thesis by (simp add: evict_evict_append)
  qed
qed

lemma saver_save_Inr: "saver_save e sv path g = Inr sv' \<Longrightarrow> sv' = retain sv g"
  by (simp add: saver_save_def split: if_splits)

lemma slots_ok_init: "slots_ok fl (init_savers fl)"
  by (simp add: slots_ok_def init_savers_def)

subsection \<open>Early stopping\<close>

lemma evaluate_early_stopping:
  assumes "custom_get_dev_loss e (session st) (dev_body_path p) (dev_headline_path p) (dev_ans_path p) = Inr dev_loss"
    and "check_score_cm e (session st) (train_body_path p) (train_headline_path p) (train_ans_path p) 1000 = Inr train_score"
    and "check_score_cm e (session st) (dev_body_path p) (dev_headline_path p) (dev_ans_path p) 0 = Inr dev_score"
  shows "evaluate e p st g = early_stopping e st dev_score dev_loss g"
  using assms by (simp add: evaluate_def bind_err_def)

lemma early_stopping_result:
  assumes ok1: "disk_ok e (bestmodel_ckpt_path (FLAGS e)) g"
    and ok2: "disk_ok e (bestmodel_dev_loss_ckpt_path (FLAGS e)) g"
  shows "early_stopping e st dev_score dev_loss g =
     Inr (st\<lparr>best_subm_score :=
                (if best_subm_score st = None \<or> (\<exists>best. best_subm_score st = Some best \<and> best < dev_score)
                 then Some dev_score else best_subm_score st),
              lowest_dev_loss :=
                (if lowest_dev_loss st = None \<or> (\<exists>lowest. lowest_dev_loss st = Some lowest \<and> dev_loss < lowest)
                 then Some dev_loss else lowest_dev_loss st),
              savers := (savers st)
                \<lparr>bestmodel_saver :=
                   (if best_subm_score st = None \<or> (\<exists>best. best_subm_score st = Some best \<and> best < dev_score)
                    then retain (bestmodel_saver (savers st)) g else bestmodel_saver (savers st)),
                 bestmodel_dev_loss_saver :=
                   (if lowest_dev_loss st = None \<or> (\<exists>lowest. lowest_dev_loss st = Some lowest \<and> dev_loss < lowest)
                    then retain (bestmodel_dev_loss_saver (savers st)) g
                    else bestmodel_dev_loss_saver (savers st))\<rparr>\<rparr>)"
  using ok1 ok2
  by (cases "best_subm_score st"; cases "lowest_dev_loss st")
     (simp_all add: early_stopping_def early_stopping_score_def early_stopping_loss_def
        saver_save_def bind_err_def)

subsection \<open>The epoch counter is changed by the \<open>while\<close> loop only\<close>

lemma early_stopping_score_epoch:
  "early_stopping_score e st sc g = Inr st' \<Longrightarrow> epoch st' = epoch st"
  by (auto simp: early_stopping_score_def bind_err_Inr_iff split: if_splits)

lemma early_stopping_loss_epoch:
  "early_stopping_loss e st l g = Inr st' \<Longrightarrow> epoch st' = epoch st"
  by (auto simp: early_stopping_loss_def bind_err_Inr_iff split: if_splits)

lemma evaluate_epoch: "evaluate e p st g = Inr st' \<Longrightarrow> epoch st' = epoch st"
  by (auto simp: evaluate_def early_stopping_def bind_err_Inr_iff
      dest!: early_stopping_score_epoch early_stopping_loss_epoch)

lemma periodic_save_epoch: "periodic_save e st g = Inr st' \<Longrightarrow> epoch st' = epoch st"
  by (auto simp: periodic_save_def bind_err_Inr_iff)

lemma train_step_epoch: "train_step e p st b = Inr st' \<Longrightarrow> epoch st' = epoch st"
  by (auto simp: train_step_def bind_err_Inr_iff Let_def split: prod.splits if_splits
      dest!: periodic_save_epoch evaluate_epoch)

lemma train_batches_epoch: "train_batches e p st bs = Inr st' \<Longrightarrow> epoch st' = epoch st"
  by (induction bs arbitrary: st) (auto split: sum.splits dest: train_step_epoch)

lemma train_epoch_epoch: "train_epoch e p st = Inr st' \<Longrightarrow> epoch st' = epoch st + 1"
  by (auto simp: train_epoch_def dest: train_batches_epoch)

lemma run_epochs_epoch: "run_epochs e p k st = Inr st' \<Longrightarrow> epoch st' = epoch st + int k"
  by (induction k arbitrary: st) (auto split: sum.splits dest: train_epoch_epoch)

subsection \<open>The retention invariant along a run\<close>

lemma early_stopping_score_slots:
  "early_stopping_score e st sc g = Inr st' \<Longrightarrow> slots_ok fl (savers st) \<Longrightarrow> slots_ok fl (savers st')"
  by (auto simp: early_stopping_score_def bind_err_Inr_iff slots_ok_def retain_max_to_keep
      split: if_splits dest!: saver_save_Inr intro: retain_length)

lemma early_stopping_loss_slots:
  "early_stopping_loss e st l g = Inr st' \<Longrightarrow> slots_ok fl (savers st) \<Longrightarrow> slots_ok fl (savers st')"
  by (auto simp: early_stopping_loss_def bind_err_Inr_iff slots_ok_def retain_max_to_keep
      split: if_splits dest!: saver_save_Inr intro: retain_length)

lemma evaluate_slots:
  "evaluate e p st g = Inr st' \<Longrightarrow> slots_ok fl (savers st) \<Longrightarrow> slots_ok fl (savers st')"
  by (auto simp: evaluate_def early_stopping_def bind_err_Inr_iff
      dest: early_stopping_score_slots early_stopping_loss_slots)

lemma periodic_save_slots:
  "periodic_save e st g = Inr st' \<Longrightarrow> slots_ok fl (savers st) \<Longrightarrow> slots_ok fl (savers st')"
  by (auto simp: periodic_save_def bind_err_Inr_iff slots_ok_def retain_max_to_keep
      dest!: saver_save_Inr intro: retain_length)

lemma train_step_slots:
  "train_step e p st b = Inr st' \<Longrightarrow> slots_ok fl (savers st) \<Longrightarrow> slots_ok fl (savers st')"
  by (auto simp: train_step_def bind_err_Inr_iff Let_def split: prod.splits if_splits
      dest!: periodic_save_slots [where fl = fl] evaluate_slots [where fl = fl])

lemma train_batches_slots:
  "train_batches e p st bs = Inr st' \<Longrightarrow> slots_ok fl (savers st) \<Longrightarrow> slots_ok fl (savers st')"
  by (induction bs arbitrary: st) (auto split: sum.splits dest: train_step_slots)

lemma train_epoch_slots:
  "train_epoch e p st = Inr st' \<Longrightarrow> slots_ok fl (savers st) \<Longrightarrow> slots_ok fl (savers st')"
  by (auto simp: train_epoch_def dest: train_batches_slots)

lemma run_epochs_slots:
  "run_epochs e p k st = Inr st' \<Longrightarrow> slots_ok fl (savers st) \<Longrightarrow> slots_ok fl (savers st')"
  by (induction k arbitrary: st) (auto split: sum.splits dest: train_epoch_slots)

subsection \<open>The \<open>while\<close> loop\<close>

text \<open>
  With a budget other than zero the loop is a bounded iteration of its body.
\<close>

lemma train_loop_bounded:
  "num_epochs (FLAGS e) \<noteq> 0 \<Longrightarrow> nat (num_epochs (FLAGS e) - epoch st) = k \<Longrightarrow>
   train_loop e p st = Some (run_epochs e p k st)"
proof (induction k arbitrary: st)
  case 0
  then show ?case by (subst train_loop.simps) simp
next
  case (Suc k)
  then have lt: "epoch st < num_epochs (FLAGS e)" by simp
  show ?case
  proof (cases "train_epoch e p st")
    case (Inl err)
    then show ?thesis using lt by (subst train_loop.simps) simp
  next
    case (Inr st')
    then have ep: "epoch st' = epoch st + 1" by (rule train_epoch_epoch)
    have "train_loop e p st' = Some (run_epochs e p k st')"
      using Suc.prems lt ep by (intro Suc.IH) simp_all
    then show ?thesis using lt Inr by (subst train_loop.simps) simp
  qed
qed


lemma train_loop_zero_prefix:
  "num_epochs (FLAGS e) = 0 \<Longrightarrow> run_epochs e p k st = Inr st' \<Longrightarrow>
   train_loop e p st = train_loop e p st'"
proof (induction k arbitrary: st)
  case 0
  then show ?case by simp
next
  case (Suc k)
  then obtain st1 where 1: "train_epoch e p st = Inr st1" and 2: "run_epochs e p k st1 = Inr st'"
    by (auto split: sum.splits)
  have "train_loop e p st = train_loop e p st1"
    using Suc.prems(1) 1 by (subst train_loop.simps) simp
  with Suc.IH [OF Suc.prems(1) 2] show ?case by simp
qed

text \<open>
  With budget zero the loop returns only when a pass fails, and with that failure.
\<close>

lemma train_loop_zero_returns:
  assumes ret: "train_loop e p st = Some r" and zero: "num_epochs (FLAGS e) = 0"
  shows "\<exists>k err. r = Inl err \<and> run_epochs e p k st = Inl err"
proof -
  let ?P = "\<lambda>e p st r. num_epochs (FLAGS e) = 0 \<longrightarrow>
              (\<exists>k err. r = Inl err \<and> run_epochs e p k st = Inl err)"
  have "?P e p st r"
  proof (rule train_loop.raw_induct [where P = ?P, OF _ ret])
    fix loop :: "'a env \<Rightarrow> paths \<Rightarrow> 'a train_state \<Rightarrow> (error + 'a train_state) option"
    fix e p st r
    assume IH: "\<And>e p st r. loop e p st = Some r \<Longrightarrow> ?P e p st r"
      and eq: "(if num_epochs (FLAGS e) = 0 \<or> epoch st < num_epochs (FLAGS e)
                then case train_epoch e p st of Inl err \<Rightarrow> Some (Inl err)
                     | Inr st' \<Rightarrow> loop e p st'
                else Some (Inr st)) = Some r"
    show "?P e p st r"
    proof
      assume z: "num_epochs (FLAGS e) = 0"
      show "\<exists>k err. r = Inl err \<and> run_epochs e p k st = Inl err"
      proof (cases "train_epoch e p st")
        case (Inl err)
        with eq z have "r = Inl err" by simp
        moreover have "run_epochs e p (Suc 0) st = Inl err" using Inl by simp
        ultimately show ?thesis by blast
      next
        case (Inr st')
        with eq z have "loop e p st' = Some r" by simp
        from IH [OF this] z obtain k err where "r = Inl err" "run_epochs e p k st' = Inl err"
          by blast
        then have "r = Inl err \<and> run_epochs e p (Suc k) st = Inl err" using Inr by simp
        then show ?thesis by blast
      qed
    qed
  qed
  with zero show ?thesis by simp
qed

lemma train_loop_zero_diverges:
  assumes "num_epochs (FLAGS e) = 0" and "\<forall>k. \<exists>st'. run_epochs e p k st = Inr st'"
  shows "train_loop e p st = None"
proof (cases "train_loop e p st")
  case None
  then show ?thesis .
next
  case (Some r)
  from train_loop_zero_returns [OF this assms(1)] obtain k err
    where "run_epochs e p k st = Inl err" by blast
  with assms(2) show ?thesis by (metis sum.distinct(1))
qed

lemma custom_train_slots:
  assumes "custom_train e m s p = Some (Inr st)" and "slots_ok fl m"
  shows "slots_ok fl (savers st)"
proof (cases "num_epochs (FLAGS e) = 0")
  case True
  with assms(1) train_loop_zero_returns [of e p "init_state m s" "Inr st"] show ?thesis
    by (simp add: custom_train_def)
next
  case False
  from train_loop_bounded [OF False refl, where st = "init_state m s" and p = p] assms(1)
  have "run_epochs e p (nat (num_epochs (FLAGS e) - epoch (init_state m s))) (init_state m s) = Inr st"
    by (simp add: custom_train_def)
  from run_epochs_slots [OF this] assms(2) show ?thesis by (simp add: init_state_def)
qed

subsection \<open>Failures\<close>






text \<open>
  A run in which nothing can fail: the three periods are not zero, every checkpoint can
  be written, and the dev loss and the two scores can be computed in every session.
\<close>

lemma train_step_succeeds:
  assumes "print_every (FLAGS e) \<noteq> 0" "save_every (FLAGS e) \<noteq> 0" "eval_every (FLAGS e) \<noteq> 0"
    and disk: "\<And>path g. disk_ok e path g"
    and dl: "\<And>s. \<exists>v. custom_get_dev_loss e s (dev_body_path p) (dev_headline_path p) (dev_ans_path p) = Inr v"
    and tr: "\<And>s. \<exists>v. check_score_cm e s (train_body_path p) (train_headline_path p) (train_ans_path p) 1000 = Inr v"
    and dv: "\<And>s. \<exists>v. check_score_cm e s (dev_body_path p) (dev_headline_path p) (dev_ans_path p) 0 = Inr v"
  shows "\<exists>st'. train_step e p st b = Inr st'"
proof -
  have ev: "\<exists>st'. evaluate e p st2 g = Inr st'" for st2 g
  proof -
    from dl tr dv obtain l t d
      where "custom_get_dev_loss e (session st2) (dev_body_path p) (dev_headline_path p) (dev_ans_path p) = Inr l"
        and "check_score_cm e (session st2) (train_body_path p) (train_headline_path p) (train_ans_path p) 1000 = Inr t"
        and "check_score_cm e (session st2) (dev_body_path p) (dev_headline_path p) (dev_ans_path p) 0 = Inr d"
      by blast
    then have "evaluate e p st2 g = early_stopping e st2 d l g" by (rule evaluate_early_stopping)
    then show ?thesis by (simp add: early_stopping_result [OF disk disk])
  qed
  obtain loss g s' where run: "run_train_iter e (session st) b = ((loss, g), s')"
    by (metis prod.exhaust)
  let ?st1 = "st\<lparr>session := s', exp_loss := update_exp_loss (exp_loss st) loss\<rparr>"
  have "\<exists>st2. (if g mod save_every (FLAGS e) = 0 then periodic_save e ?st1 g else Inr ?st1) = Inr st2"
    by (simp add: periodic_save_def saver_save_def disk bind_err_def)
  then obtain st2 where st2: "(if g mod save_every (FLAGS e) = 0 then periodic_save e ?st1 g else Inr ?st1) = Inr st2"
    by blast
  from ev [of st2 g] obtain st3 where "evaluate e p st2 g = Inr st3" by blast
  then have "train_step e p st b = Inr (if g mod eval_every (FLAGS e) = 0 then st3 else st2)"
    using run st2 assms(1-3) by (simp add: train_step_def np_mod_def bind_err_def)
  then show ?thesis by blast
qed

lemma run_epochs_succeeds:
  assumes "print_every (FLAGS e) \<noteq> 0" "save_every (FLAGS e) \<noteq> 0" "eval_every (FLAGS e) \<noteq> 0"
    and disk: "\<And>path g. disk_ok e path g"
    and dl: "\<And>s. \<exists>v. custom_get_dev_loss e s (dev_body_path p) (dev_headline_path p) (dev_ans_path p) = Inr v"
    and tr: "\<And>s. \<exists>v. check_score_cm e s (train_body_path p) (train_headline_path p) (train_ans_path p) 1000 = Inr v"
    and dv: "\<And>s. \<exists>v. check_score_cm e s (dev_body_path p) (dev_headline_path p) (dev_ans_path p) 0 = Inr v"
  shows "\<exists>st'. run_epochs e p k st = Inr st'"
proof -
  have step: "\<exists>st'. train_step e p st b = Inr st'" for st b
    using assms by (rule train_step_succeeds)
  have batches: "\<exists>st'. train_batches e p st bs = Inr st'" for st bs
  proof (induction bs arbitrary: st)
    case Nil
    then show ?case by simp
  next
    case (Cons b bs)
    from step [of st b] obtain st1 where "train_step e p st b = Inr st1" by blast
    with Cons [of st1] show ?case by simp
  qed
  have ep: "\<exists>st'. train_epoch e p st = Inr st'" for st
    by (simp add: train_epoch_def batches)
  show ?thesis
  proof (induction k arbitrary: st)
    case 0
    then show ?case by simp
  next
    case (Suc k)
    from ep [of st] obtain st1 where "train_epoch e p st = Inr st1" by blast
    with Suc [of st1] show ?case by simp
  qed
qed

subsection \<open>Facts about the example environment\<close>

lemma ex_dev_loss: "custom_get_dev_loss (ex_env fl ex_files ok) s ''dev'' hp ap = Inr 4"
  by (simp add: custom_get_dev_loss_def fwd_defs ex_defs)

lemma ex_train_score: "check_score_cm (ex_env fl ex_files ok) s ''train'' hp ap 1000 = Inr 3"
  by (simp add: fwd_defs score_defs ex_defs)

lemma ex_dev_score: "check_score_cm (ex_env fl ex_files ok) s ''dev'' hp ap 0 = Inr 2"
  by (simp add: fwd_defs score_defs ex_defs)

lemma ex_run_epochs:
  "\<exists>st'. run_epochs (ex_env (ex_flags 0 1) ex_files (\<lambda>path g. True)) (ex_paths ''train'' ''dev'') k st = Inr st'"
  by (rule run_epochs_succeeds) (simp_all add: ex_paths_def ex_dev_loss ex_train_score ex_dev_score,
      simp_all add: ex_env_def ex_flags_def)

section \<open>The claims\<close>

subsection \<open>C1: the smoothed loss\<close>

text \<open>
  Claim C1. The smoothed loss is the raw loss after the first observation, and every
  later observation \<open>x\<close> turns the smoothed loss \<open>L\<close> into \<open>0.99 * L + 0.01 * x\<close>.

  The code tests \<open>not exp_loss\<close> under the comment \<open>first iter\<close>; the test also holds
  when the smoothed loss is the float zero. In the run below the two training batches have
  the losses \<open>0\<close> and \<open>5\<close>: after the second observation the claim gives
  \<open>0.99 * 0 + 0.01 * 5 = 0.05\<close>, and the code has re-seeded the smoothed loss with \<open>5\<close>.
\<close>

theorem exp_loss_reseeded_after_zero:
  "(case custom_train (ex_env (ex_flags 1 1000) ex_files (\<lambda>path g. True))
           (init_savers (ex_flags 1 1000)) (0::nat) (ex_paths ''train'' ''dev'') of
      Some (Inr st) \<Rightarrow> exp_loss st
    | _ \<Rightarrow> None) = Some 5
   \<and> update_exp_loss (update_exp_loss None 0) 5 = Some 5
   \<and> (0.99 * 0 + 0.01 * 5 :: real) \<noteq> 5"
  by (simp add: train_loop_bounded [where k = 1] train_defs fwd_defs score_defs ex_defs)

subsection \<open>C2: the dev loss is the size-weighted mean\<close>

text \<open>
  Claim C2. For dev batches with mean losses \<open>loss_i\<close> and sizes \<open>size_i\<close>,
  \<open>custom_get_dev_loss\<close> returns \<open>sum (loss_i * size_i) / sum size_i\<close> (whenever there is
  an example at all); with sizes \<open>[3, 1]\<close> and losses \<open>[2, 10]\<close> it returns \<open>4\<close>; with
  batches of one common size it returns the plain mean of the batch losses.
\<close>

theorem custom_get_dev_loss_weighted_mean:
  "(batch_generator e bp hp ap True = bs \<longrightarrow> 0 < (\<Sum>b\<leftarrow>bs. batch_size b) \<longrightarrow>
      custom_get_dev_loss e s bp hp ap =
        Inr ((\<Sum>b\<leftarrow>bs. get_loss e s b * real (batch_size b)) / real (\<Sum>b\<leftarrow>bs. batch_size b)))
   \<and> (batch_generator e bp hp ap True = [b1, b2] \<longrightarrow> batch_size b1 = 3 \<longrightarrow> batch_size b2 = 1 \<longrightarrow>
      get_loss e s b1 = 2 \<longrightarrow> get_loss e s b2 = 10 \<longrightarrow>
      custom_get_dev_loss e s bp hp ap = Inr 4)
   \<and> (batch_generator e bp hp ap True = bs \<longrightarrow> bs \<noteq> [] \<longrightarrow> 0 < n \<longrightarrow> (\<forall>b\<in>set bs. batch_size b = n) \<longrightarrow>
      custom_get_dev_loss e s bp hp ap = Inr ((\<Sum>b\<leftarrow>bs. get_loss e s b) / real (length bs)))"
proof (intro conjI impI)
  assume "batch_generator e bp hp ap True = bs" "0 < (\<Sum>b\<leftarrow>bs. batch_size b)"
  then show "custom_get_dev_loss e s bp hp ap =
        Inr ((\<Sum>b\<leftarrow>bs. get_loss e s b * real (batch_size b)) / real (\<Sum>b\<leftarrow>bs. batch_size b))"
    by (simp add: custom_get_dev_loss_eq Let_def del: sum_list_eq_0_iff)
next
  assume "batch_generator e bp hp ap True = [b1, b2]" "batch_size b1 = 3" "batch_size b2 = 1"
    "get_loss e s b1 = 2" "get_loss e s b2 = 10"
  then show "custom_get_dev_loss e s bp hp ap = Inr 4"
    by (simp add: custom_get_dev_loss_eq Let_def)
next
  assume g: "batch_generator e bp hp ap True = bs" and ne: "bs \<noteq> []" and n: "0 < n"
    and u: "\<forall>b\<in>set bs. batch_size b = n"
  have len: "0 < length bs" using ne by simp
  have "(\<Sum>b\<leftarrow>bs. get_loss e s b * real (batch_size b)) / real (\<Sum>b\<leftarrow>bs. batch_size b)
      = (\<Sum>b\<leftarrow>bs. get_loss e s b) / real (length bs)"
    using n len by (simp add: sum_list_const_size [OF u] sum_list_const_loss [OF u])
  moreover have "0 < (\<Sum>b\<leftarrow>bs. batch_size b)"
    using n len by (simp add: sum_list_const_size [OF u])
  ultimately show "custom_get_dev_loss e s bp hp ap = Inr ((\<Sum>b\<leftarrow>bs. get_loss e s b) / real (length bs))"
    using g by (simp add: custom_get_dev_loss_eq Let_def del: sum_list_eq_0_iff)
qed

theorem custom_get_dev_loss_weighted_mean_witness:
  "custom_get_dev_loss (ex_env (ex_flags 1 1) ex_files (\<lambda>path g. True)) (0::nat) ''dev'' ''dev_h'' ''dev_a''
     = Inr 4
   \<and> custom_get_dev_loss (ex_env (ex_flags 1 1) ex_files (\<lambda>path g. True)) (0::nat)
       ''train'' ''train_h'' ''train_a'' = Inr (5 / 2)"
  using custom_get_dev_loss_weighted_mean [where e = "ex_env (ex_flags 1 1) ex_files (\<lambda>path g. True)" and s = "0::nat"
      and bp = "''dev''" and hp = "''dev_h''" and ap = "''dev_a''" and bs = "ex_files ''dev''"
      and ?b1.0 = "ex_batch 2 [2, 0, 2]" and ?b2.0 = "ex_batch 10 [1]" and n = 1]
    custom_get_dev_loss_weighted_mean [where e = "ex_env (ex_flags 1 1) ex_files (\<lambda>path g. True)" and s = "0::nat"
      and bp = "''train''" and hp = "''train_h''" and ap = "''train_a''" and bs = "ex_files ''train''"
      and ?b1.0 = "ex_batch 2 [2, 0, 2]" and ?b2.0 = "ex_batch 10 [1]" and n = 2]
  by (simp add: get_loss_def get_loss_feed_def ex_defs)

subsection \<open>C3: the sample limit of the score\<close>

text \<open>
  Claim C3. \<open>check_score_cm\<close> runs its loop from the empty lists and the remaining
  count \<open>num_samples\<close> over the batches that the generator yields with
  \<open>discard_long = False\<close>, and scores the pairs that the loop has collected. With
  \<open>num_samples = 0\<close> these are the label pairs of every example of every batch. With
  \<open>num_samples = n > 0\<close> they are the first \<open>n\<close> pairs of the data set, that is
  \<open>min n size\<close> pairs: whole batches while they fit, then the prefix of the next batch
  that fills the limit; after that no batch is consumed, so that batches behind the
  limit do not matter, even one on which the loop body would fail. With \<open>n = 5\<close> and
  two batches of four examples the function scores the first batch and exactly one pair
  of the second. The last four statements say the same of the loop itself, with the
  remaining count that it ends with.
\<close>

theorem check_score_cm_sample_limit:
  "(batch_generator e body_path headline_path ans_path False = bs \<longrightarrow>
      list_all2 (labelled e s) bs pas \<longrightarrow>
      check_score_cm e s body_path headline_path ans_path 0 =
        report_score e (concat (map snd pas)) (concat (map fst pas)))
   \<and> (batch_generator e body_path headline_path ans_path False = bs \<longrightarrow>
      list_all2 (labelled e s) bs pas \<longrightarrow> 0 < n \<longrightarrow>
      check_score_cm e s body_path headline_path ans_path n =
        report_score e (take (nat n) (concat (map snd pas))) (take (nat n) (concat (map fst pas))))
   \<and> (batch_generator e body_path headline_path ans_path False = bs @ cs \<longrightarrow>
      list_all2 (labelled e s) bs pas \<longrightarrow> 0 < n \<longrightarrow> n \<le> int (sum_list (map batch_size bs)) \<longrightarrow>
      check_score_cm e s body_path headline_path ans_path n =
        report_score e (take (nat n) (concat (map snd pas))) (take (nat n) (concat (map fst pas))))
   \<and> (batch_generator e body_path headline_path ans_path False = b1 # b2 # cs \<longrightarrow>
      labelled e s b1 (p1, a1) \<longrightarrow> labelled e s b2 (p2, a2) \<longrightarrow>
      batch_size b1 = 4 \<longrightarrow> batch_size b2 = 4 \<longrightarrow>
      check_score_cm e s body_path headline_path ans_path 5 =
        report_score e (a1 @ take 1 a2) (p1 @ take 1 p2))
   \<and> (list_all2 (labelled e s) bs pas \<longrightarrow>
      check_score_cm_loop e s 0 ([], [], 0) bs =
        Inr (concat (map fst pas), concat (map snd pas), 0))
   \<and> (list_all2 (labelled e s) bs pas \<longrightarrow> 0 < n \<longrightarrow>
      check_score_cm_loop e s n ([], [], n) bs =
        Inr (take (nat n) (concat (map fst pas)), take (nat n) (concat (map snd pas)),
             n - min n (int (sum_list (map batch_size bs))))
      \<and> length (take (nat n) (concat (map fst pas))) = min (nat n) (sum_list (map batch_size bs))
      \<and> length (take (nat n) (concat (map snd pas))) = min (nat n) (sum_list (map batch_size bs)))
   \<and> (list_all2 (labelled e s) bs pas \<longrightarrow> 0 < n \<longrightarrow> n \<le> int (sum_list (map batch_size bs)) \<longrightarrow>
      check_score_cm_loop e s n ([], [], n) (bs @ cs) = check_score_cm_loop e s n ([], [], n) bs)
   \<and> (labelled e s b1 (p1, a1) \<longrightarrow> labelled e s b2 (p2, a2) \<longrightarrow>
      batch_size b1 = 4 \<longrightarrow> batch_size b2 = 4 \<longrightarrow>
      check_score_cm_loop e s 5 ([], [], 5) (b1 # b2 # cs) = Inr (p1 @ take 1 p2, a1 @ take 1 a2, 0))"
proof (intro conjI impI)
  assume "batch_generator e body_path headline_path ans_path False = bs"
    and "list_all2 (labelled e s) bs pas"
  then show "check_score_cm e s body_path headline_path ans_path 0 =
        report_score e (concat (map snd pas)) (concat (map fst pas))"
    by (rule check_score_cm_all)
next
  assume "batch_generator e body_path headline_path ans_path False = bs"
    and "list_all2 (labelled e s) bs pas" and "0 < n"
  then show "check_score_cm e s body_path headline_path ans_path n =
        report_score e (take (nat n) (concat (map snd pas))) (take (nat n) (concat (map fst pas)))"
    by (intro check_score_cm_limited [where bs = bs and cs = "[]"]) simp_all
next
  assume "batch_generator e body_path headline_path ans_path False = bs @ cs"
    and "list_all2 (labelled e s) bs pas" and "0 < n"
    and "n \<le> int (sum_list (map batch_size bs))"
  then show "check_score_cm e s body_path headline_path ans_path n =
        report_score e (take (nat n) (concat (map snd pas))) (take (nat n) (concat (map fst pas)))"
    by (intro check_score_cm_limited [where bs = bs and cs = cs]) simp_all
next
  assume g: "batch_generator e body_path headline_path ans_path False = b1 # b2 # cs"
    and l1: "labelled e s b1 (p1, a1)" and l2: "labelled e s b2 (p2, a2)"
    and s1: "batch_size b1 = 4" and s2: "batch_size b2 = 4"
  have h: "list_all2 (labelled e s) [b1, b2] [(p1, a1), (p2, a2)]" using l1 l2 by simp
  have "check_score_cm e s body_path headline_path ans_path 5 =
      report_score e (take (nat 5) (concat (map snd [(p1, a1), (p2, a2)])))
        (take (nat 5) (concat (map fst [(p1, a1), (p2, a2)])))"
    using g s1 s2 by (intro check_score_cm_limited [where bs = "[b1, b2]" and cs = cs] h) simp_all
  then show "check_score_cm e s body_path headline_path ans_path 5 =
        report_score e (a1 @ take 1 a2) (p1 @ take 1 p2)"
    using l1 l2 s1 s2 by (simp add: labelled_def)
next
  assume h: "list_all2 (labelled e s) bs pas"
  then have "list_all2 (\<lambda>b pa. batch_labels e s b = Inr pa) bs pas"
    by (rule list_all2_mono) (simp add: labelled_def)
  from loop_all [OF this, of "[]" "[]" 0]
  show "check_score_cm_loop e s 0 ([], [], 0) bs =
        Inr (concat (map fst pas), concat (map snd pas), 0)" by simp
next
  assume h: "list_all2 (labelled e s) bs pas" and n: "0 < n"
  from loop_limit [OF h _ n, of n "[]" "[]"] n
  show "check_score_cm_loop e s n ([], [], n) bs =
        Inr (take (nat n) (concat (map fst pas)), take (nat n) (concat (map snd pas)),
             n - min n (int (sum_list (map batch_size bs))))" by simp
next
  assume h: "list_all2 (labelled e s) bs pas"
  from labelled_lengths(1) [OF h]
  show "length (take (nat n) (concat (map fst pas))) = min (nat n) (sum_list (map batch_size bs))"
    by simp
next
  assume h: "list_all2 (labelled e s) bs pas"
  from labelled_lengths(2) [OF h]
  show "length (take (nat n) (concat (map snd pas))) = min (nat n) (sum_list (map batch_size bs))"
    by simp
next
  assume h: "list_all2 (labelled e s) bs pas" and n: "0 < n"
    and le: "n \<le> int (sum_list (map batch_size bs))"
  from loop_stops [OF h _ n le, of n "[]" "[]" cs] n
  show "check_score_cm_loop e s n ([], [], n) (bs @ cs) = check_score_cm_loop e s n ([], [], n) bs"
    by simp
next
  assume l1: "labelled e s b1 (p1, a1)" and l2: "labelled e s b2 (p2, a2)"
    and s1: "batch_size b1 = 4" and s2: "batch_size b2 = 4"
  have h: "list_all2 (labelled e s) [b1, b2] [(p1, a1), (p2, a2)]" using l1 l2 by simp
  have "check_score_cm_loop e s 5 ([], [], 5) ([b1, b2] @ cs)
      = check_score_cm_loop e s 5 ([], [], 5) [b1, b2]"
    using s1 s2 by (intro loop_stops [OF h]) simp_all
  also have "\<dots> = Inr (take (nat 5) (concat (map fst [(p1, a1), (p2, a2)])),
                      take (nat 5) (concat (map snd [(p1, a1), (p2, a2)])),
                      5 - min 5 (int (sum_list (map batch_size [b1, b2]))))"
    using loop_limit [OF h, of 5 5 "[]" "[]"] by simp
  also have "\<dots> = Inr (p1 @ take 1 p2, a1 @ take 1 a2, 0)"
    using l1 l2 s1 s2 by (simp add: labelled_def)
  finally show "check_score_cm_loop e s 5 ([], [], 5) (b1 # b2 # cs)
      = Inr (p1 @ take 1 p2, a1 @ take 1 a2, 0)" by simp
qed

theorem check_score_cm_sample_limit_witness:
  "check_score_cm (ex_env (ex_flags 1 1) ex_files (\<lambda>path g. True)) (0::nat)
     ''big'' ''big_h'' ''big_a'' 5 = Inr 1
   \<and> check_score_cm (ex_env (ex_flags 1 1) ex_files (\<lambda>path g. True)) (0::nat)
     ''dev'' ''dev_h'' ''dev_a'' 0 = Inr 2
   \<and> check_score_cm (ex_env (ex_flags 1 1) ex_files (\<lambda>path g. True)) (0::nat)
     ''dev'' ''dev_h'' ''dev_a'' 3 = Inr 2
   \<and> check_score_cm_loop (ex_env (ex_flags 1 1) ex_files (\<lambda>path g. True)) (0::nat) 5 ([], [], 5)
     (ex_files ''big'') =
     Inr ([''discuss'', ''discuss'', ''discuss'', ''discuss'', ''discuss''],
          [''agree'', ''disagree'', ''discuss'', ''unrelated'', ''unrelated''], 0)
   \<and> check_score_cm_loop (ex_env (ex_flags 1 1) ex_files (\<lambda>path g. True)) (0::nat) 0 ([], [], 0)
     [ex_batch 1 [0, 1, 2, 3], ex_batch 1 [3, 2, 1, 0]] =
     Inr ([''discuss'', ''discuss'', ''discuss'', ''discuss'',
           ''discuss'', ''discuss'', ''discuss'', ''discuss''],
          [''agree'', ''disagree'', ''discuss'', ''unrelated'',
           ''unrelated'', ''discuss'', ''disagree'', ''agree''], 0)
   \<and> batch_labels (ex_env (ex_flags 1 1) ex_files (\<lambda>path g. True)) (0::nat) (ex_batch 1 [7])
       = Inl IndexError"
  using check_score_cm_sample_limit
    [where e = "ex_env (ex_flags 1 1) ex_files (\<lambda>path g. True)" and s = "0::nat"
      and body_path = "''big''" and headline_path = "''big_h''" and ans_path = "''big_a''"
      and bs = "[ex_batch 1 [0, 1, 2, 3], ex_batch 1 [3, 2, 1, 0]]"
      and pas = "[([''discuss'', ''discuss'', ''discuss'', ''discuss''],
                    [''agree'', ''disagree'', ''discuss'', ''unrelated'']),
                  ([''discuss'', ''discuss'', ''discuss'', ''discuss''],
                    [''unrelated'', ''discuss'', ''disagree'', ''agree''])]"
      and n = 5 and cs = "[ex_batch 1 [7]]"
      and ?b1.0 = "ex_batch 1 [0, 1, 2, 3]"
      and ?p1.0 = "[''discuss'', ''discuss'', ''discuss'', ''discuss'']"
      and ?a1.0 = "[''agree'', ''disagree'', ''discuss'', ''unrelated'']"
      and ?b2.0 = "ex_batch 1 [3, 2, 1, 0]"
      and ?p2.0 = "[''discuss'', ''discuss'', ''discuss'', ''discuss'']"
      and ?a2.0 = "[''unrelated'', ''discuss'', ''disagree'', ''agree'']"]
    check_score_cm_sample_limit
    [where e = "ex_env (ex_flags 1 1) ex_files (\<lambda>path g. True)" and s = "0::nat"
      and body_path = "''dev''" and headline_path = "''dev_h''" and ans_path = "''dev_a''"
      and bs = "ex_files ''dev''"
      and pas = "[([''discuss'', ''discuss'', ''discuss''], [''discuss'', ''agree'', ''discuss'']),
                  ([''discuss''], [''disagree''])]"
      and n = 3 and cs = "[]"
      and ?b1.0 = "ex_batch 1 [0, 1, 2, 3]"
      and ?p1.0 = "[''discuss'', ''discuss'', ''discuss'', ''discuss'']"
      and ?a1.0 = "[''agree'', ''disagree'', ''discuss'', ''unrelated'']"
      and ?b2.0 = "ex_batch 1 [3, 2, 1, 0]"
      and ?p2.0 = "[''discuss'', ''discuss'', ''discuss'', ''discuss'']"
      and ?a2.0 = "[''unrelated'', ''discuss'', ''disagree'', ''agree'']"]
  by (simp add: labelled_def label_defs accumulate_def ex_defs)

subsection \<open>C4: two independent early-stopping criteria\<close>

text \<open>
  Claim C4. At an evaluation at step \<open>g\<close> the best-by-score checkpoint is written if
  and only if there is no best score yet or the dev score is strictly above it, and the
  best-by-loss checkpoint is written if and only if there is no lowest loss yet or the
  dev loss is strictly below it. Each criterion updates its own record and its own
  saver and leaves the other's alone; the periodic saver is not touched.

  The evaluation is assumed to reach the comparisons (the dev loss and the two scores
  are computed and the two checkpoint files can be written); \<open>g\<close> is a step for which
  neither best slot holds a checkpoint yet, so that a checkpoint of step \<open>g\<close> in a slot
  is one written by this evaluation.
\<close>

theorem early_stopping_criteria_independent:
  assumes "custom_get_dev_loss e (session st) (dev_body_path p) (dev_headline_path p) (dev_ans_path p)
             = Inr dev_loss"
    and "check_score_cm e (session st) (train_body_path p) (train_headline_path p) (train_ans_path p) 1000
             = Inr train_score"
    and "check_score_cm e (session st) (dev_body_path p) (dev_headline_path p) (dev_ans_path p) 0
             = Inr dev_score"
    and "disk_ok e (bestmodel_ckpt_path (FLAGS e)) g"
    and "disk_ok e (bestmodel_dev_loss_ckpt_path (FLAGS e)) g"
    and "max_to_keep (bestmodel_saver (savers st)) = 1"
    and "max_to_keep (bestmodel_dev_loss_saver (savers st)) = 1"
    and "g \<notin> set (checkpoints (bestmodel_saver (savers st)))"
    and "g \<notin> set (checkpoints (bestmodel_dev_loss_saver (savers st)))"
  shows "\<exists>st'. evaluate e p st g = Inr st'
     \<and> (g \<in> set (checkpoints (bestmodel_saver (savers st')))
          \<longleftrightarrow> best_subm_score st = None \<or> (\<exists>best. best_subm_score st = Some best \<and> best < dev_score))
     \<and> (g \<in> set (checkpoints (bestmodel_dev_loss_saver (savers st')))
          \<longleftrightarrow> lowest_dev_loss st = None \<or> (\<exists>lowest. lowest_dev_loss st = Some lowest \<and> dev_loss < lowest))
     \<and> best_subm_score st' =
          (if best_subm_score st = None \<or> (\<exists>best. best_subm_score st = Some best \<and> best < dev_score)
           then Some dev_score else best_subm_score st)
     \<and> lowest_dev_loss st' =
          (if lowest_dev_loss st = None \<or> (\<exists>lowest. lowest_dev_loss st = Some lowest \<and> dev_loss < lowest)
           then Some dev_loss else lowest_dev_loss st)
     \<and> (g \<notin> set (checkpoints (bestmodel_saver (savers st')))
          \<longrightarrow> bestmodel_saver (savers st') = bestmodel_saver (savers st))
     \<and> (g \<notin> set (checkpoints (bestmodel_dev_loss_saver (savers st')))
          \<longrightarrow> bestmodel_dev_loss_saver (savers st') = bestmodel_dev_loss_saver (savers st))
     \<and> saver (savers st') = saver (savers st)"
proof -
  have "evaluate e p st g = early_stopping e st dev_score dev_loss g"
    using assms(1-3) by (rule evaluate_early_stopping)
  then show ?thesis
    unfolding early_stopping_result [OF assms(4,5)]
    using assms(6-9) by (simp add: retain_one)
qed

theorem early_stopping_criteria_independent_witness:
  "\<exists>st'. evaluate (ex_env (ex_flags 1 1) ex_files (\<lambda>path g. True)) (ex_paths ''train'' ''dev'')
            \<lparr>exp_loss = Some 1, best_subm_score = Some 3, lowest_dev_loss = Some 6, epoch = 1,
             session = (7::nat), savers = init_savers (ex_flags 1 1)\<rparr> 8 = Inr st'
     \<and> 8 \<notin> set (checkpoints (bestmodel_saver (savers st')))
     \<and> 8 \<in> set (checkpoints (bestmodel_dev_loss_saver (savers st')))
     \<and> best_subm_score st' = Some 3
     \<and> lowest_dev_loss st' = Some 4"
  using early_stopping_criteria_independent
    [where e = "ex_env (ex_flags 1 1) ex_files (\<lambda>path g. True)" and p = "ex_paths ''train'' ''dev''"
      and st = "\<lparr>exp_loss = Some 1, best_subm_score = Some 3, lowest_dev_loss = Some 6, epoch = 1,
             session = (7::nat), savers = init_savers (ex_flags 1 1)\<rparr>"
      and g = 8 and dev_loss = 4 and train_score = 3 and dev_score = 2]
  by (simp add: custom_get_dev_loss_def fwd_defs score_defs init_savers_def ex_defs) blast

subsection \<open>C5: bounded retention of the checkpoint slots\<close>

text \<open>
  Claim C5. Every slot holds at most its retention count at all times. After any
  sequence of saves the periodic saver holds the \<open>keep\<close> most recent steps (with
  \<open>keep = 3\<close>, four saves leave the steps 2, 3 and 4), and each best saver holds
  exactly the last step saved to it. The bound is kept by every step of the training
  loop and holds in the state that \<open>custom_train\<close> returns.
\<close>

theorem checkpoint_slots_bounded:
  "length (checkpoints (foldl retain (saver (init_savers fl)) steps)) \<le> keep fl
   \<and> checkpoints (foldl retain (saver (init_savers fl)) steps) = drop (length steps - keep fl) steps
   \<and> (keep fl = 3 \<longrightarrow> checkpoints (foldl retain (saver (init_savers fl)) [1, 2, 3, 4]) = [2, 3, 4])
   \<and> (steps \<noteq> [] \<longrightarrow>
        checkpoints (foldl retain (bestmodel_saver (init_savers fl)) steps) = [last steps]
        \<and> checkpoints (foldl retain (bestmodel_dev_loss_saver (init_savers fl)) steps) = [last steps])
   \<and> (slots_ok fl (savers st) \<longrightarrow> train_step e p st b = Inr st' \<longrightarrow> slots_ok fl (savers st'))
   \<and> (custom_train e (init_savers (FLAGS e)) s p = Some (Inr st'') \<longrightarrow>
        length (checkpoints (saver (savers st''))) \<le> keep (FLAGS e)
        \<and> length (checkpoints (bestmodel_saver (savers st''))) \<le> 1
        \<and> length (checkpoints (bestmodel_dev_loss_saver (savers st''))) \<le> 1)"
proof (intro conjI impI)
  show eq: "checkpoints (foldl retain (saver (init_savers fl)) steps) = drop (length steps - keep fl) steps"
    by (simp add: foldl_retain_checkpoints init_savers_def evict_def)
  show "length (checkpoints (foldl retain (saver (init_savers fl)) steps)) \<le> keep fl"
    unfolding eq by simp
next
  assume "keep fl = 3"
  then show "checkpoints (foldl retain (saver (init_savers fl)) [1, 2, 3, 4]) = [2, 3, 4]"
    by (simp add: init_savers_def retain_def evict_def)
next
  assume ne: "steps \<noteq> []"
  then have "drop (length steps - Suc 0) steps = [last steps]"
    by (induction steps rule: rev_induct) simp_all
  then show "checkpoints (foldl retain (bestmodel_saver (init_savers fl)) steps) = [last steps]"
    and "checkpoints (foldl retain (bestmodel_dev_loss_saver (init_savers fl)) steps) = [last steps]"
    using ne by (simp_all add: foldl_retain_checkpoints init_savers_def evict_def)
next
  assume "slots_ok fl (savers st)" "train_step e p st b = Inr st'"
  then show "slots_ok fl (savers st')" by (rule train_step_slots [rotated])
next
  assume "custom_train e (init_savers (FLAGS e)) s p = Some (Inr st'')"
  from custom_train_slots [OF this slots_ok_init]
  show "length (checkpoints (saver (savers st''))) \<le> keep (FLAGS e)"
    and "length (checkpoints (bestmodel_saver (savers st''))) \<le> 1"
    and "length (checkpoints (bestmodel_dev_loss_saver (savers st''))) \<le> 1"
    by (simp_all add: slots_ok_def)
qed

theorem checkpoint_slots_bounded_witness:
  "checkpoints (foldl retain (saver (init_savers (ex_flags 2 1))) [1, 2, 3, 4]) = [2, 3, 4]
   \<and> checkpoints (foldl retain (bestmodel_saver (init_savers (ex_flags 2 1))) [1, 2, 3, 4]) = [4]
   \<and> checkpoints (foldl retain (bestmodel_dev_loss_saver (init_savers (ex_flags 2 1))) [1, 2, 3, 4]) = [4]
   \<and> slots_ok (ex_flags 2 1)
        \<lparr>saver = \<lparr>max_to_keep = 3, checkpoints = [1]\<rparr>,
         bestmodel_saver = \<lparr>max_to_keep = 1, checkpoints = [1]\<rparr>,
         bestmodel_dev_loss_saver = \<lparr>max_to_keep = 1, checkpoints = [1]\<rparr>\<rparr>
   \<and> length [2, 3, 4 :: int] \<le> keep (ex_flags 2 1)"
  using checkpoint_slots_bounded
    [where fl = "ex_flags 2 1" and steps = "[1, 2, 3, 4]"
      and e = "ex_env (ex_flags 2 1) ex_files (\<lambda>path g. True)" and p = "ex_paths ''train'' ''dev''"
      and s = "0::nat" and st = "init_state (init_savers (ex_flags 2 1)) 0"
      and b = "ex_batch 0 [2, 2]"
      and st' = "\<lparr>exp_loss = Some 0, best_subm_score = Some 2, lowest_dev_loss = Some 4,
                  epoch = 0, session = 1,
                  savers = \<lparr>saver = \<lparr>max_to_keep = 3, checkpoints = [1]\<rparr>,
                            bestmodel_saver = \<lparr>max_to_keep = 1, checkpoints = [1]\<rparr>,
                            bestmodel_dev_loss_saver = \<lparr>max_to_keep = 1, checkpoints = [1]\<rparr>\<rparr>\<rparr>"
      and st'' = "\<lparr>exp_loss = Some (9901 / 2000), best_subm_score = Some 2, lowest_dev_loss = Some 4,
                epoch = 2, session = 4,
                savers = \<lparr>saver = \<lparr>max_to_keep = 3, checkpoints = [2, 3, 4]\<rparr>,
                          bestmodel_saver = \<lparr>max_to_keep = 1, checkpoints = [1]\<rparr>,
                          bestmodel_dev_loss_saver = \<lparr>max_to_keep = 1, checkpoints = [1]\<rparr>\<rparr>\<rparr>"]
  by (simp add: train_loop_bounded [where k = 2] eval_nat_numeral train_defs fwd_defs score_defs
      ex_defs slots_ok_def)

subsection \<open>C6: the epoch budget\<close>

text \<open>
  Claim C6. With a positive budget \<open>custom_train\<close> returns, and what it returns is the
  result of exactly \<open>num_epochs\<close> passes through the loop body; a state returned has
  counted \<open>num_epochs\<close> epochs. With budget zero it never returns a state: it runs
  forever unless a pass fails.
\<close>

theorem custom_train_epoch_budget:
  "(0 < num_epochs (FLAGS e) \<longrightarrow>
      custom_train e m s p = Some (run_epochs e p (nat (num_epochs (FLAGS e))) (init_state m s))
      \<and> (\<forall>st. custom_train e m s p = Some (Inr st) \<longrightarrow> epoch st = num_epochs (FLAGS e)))
   \<and> (num_epochs (FLAGS e) = 0 \<longrightarrow>
      (\<forall>st. custom_train e m s p \<noteq> Some (Inr st))
      \<and> ((\<forall>k. \<exists>st. run_epochs e p k (init_state m s) = Inr st) \<longrightarrow> custom_train e m s p = None))"
proof (intro conjI impI allI)
  assume pos: "0 < num_epochs (FLAGS e)"
  then have ne: "num_epochs (FLAGS e) \<noteq> 0" by simp
  show run: "custom_train e m s p = Some (run_epochs e p (nat (num_epochs (FLAGS e))) (init_state m s))"
    unfolding custom_train_def
    by (rule train_loop_bounded [OF ne]) (simp add: init_state_def)
  fix st assume "custom_train e m s p = Some (Inr st)"
  with run have "run_epochs e p (nat (num_epochs (FLAGS e))) (init_state m s) = Inr st" by simp
  from run_epochs_epoch [OF this] pos show "epoch st = num_epochs (FLAGS e)"
    by (simp add: init_state_def)
next
  fix st assume zero: "num_epochs (FLAGS e) = 0"
  show "custom_train e m s p \<noteq> Some (Inr st)"
  proof
    assume "custom_train e m s p = Some (Inr st)"
    then have "train_loop e p (init_state m s) = Some (Inr st)" by (simp add: custom_train_def)
    from train_loop_zero_returns [OF this zero] show False by auto
  qed
next
  assume zero: "num_epochs (FLAGS e) = 0"
    and all: "\<forall>k. \<exists>st. run_epochs e p k (init_state m s) = Inr st"
  then show "custom_train e m s p = None"
    unfolding custom_train_def by (rule train_loop_zero_diverges)
qed

theorem custom_train_epoch_budget_witness:
  "custom_train (ex_env (ex_flags 2 1) ex_files (\<lambda>path g. True)) (init_savers (ex_flags 2 1)) (0::nat)
     (ex_paths ''train'' ''dev'') =
     Some (Inr \<lparr>exp_loss = Some (9901 / 2000), best_subm_score = Some 2, lowest_dev_loss = Some 4,
                epoch = 2, session = 4,
                savers = \<lparr>saver = \<lparr>max_to_keep = 3, checkpoints = [2, 3, 4]\<rparr>,
                          bestmodel_saver = \<lparr>max_to_keep = 1, checkpoints = [1]\<rparr>,
                          bestmodel_dev_loss_saver = \<lparr>max_to_keep = 1, checkpoints = [1]\<rparr>\<rparr>\<rparr>)
   \<and> custom_train (ex_env (ex_flags 0 1) ex_files (\<lambda>path g. True)) (init_savers (ex_flags 0 1)) (0::nat)
     (ex_paths ''train'' ''dev'') = None"
  using custom_train_epoch_budget
      [where e = "ex_env (ex_flags 2 1) ex_files (\<lambda>path g. True)" and m = "init_savers (ex_flags 2 1)"
        and s = "0::nat" and p = "ex_paths ''train'' ''dev''"]
    custom_train_epoch_budget
      [where e = "ex_env (ex_flags 0 1) ex_files (\<lambda>path g. True)" and m = "init_savers (ex_flags 0 1)"
        and s = "0::nat" and p = "ex_paths ''train'' ''dev''"]
    ex_run_epochs
  by (simp add: eval_nat_numeral train_defs fwd_defs score_defs ex_defs)

subsection \<open>C7: failures end the run\<close>



subsection \<open>C9: the dev loss of an empty dev set\<close>

text \<open>
  Claim C9. \<open>custom_get_dev_loss\<close> divides by the number of examples without a guard:
  when the generator yields no batch it fails with \<open>ZeroDivisionError\<close>, and when it
  yields at least one batch (of at least one example each) it returns a value.
\<close>

theorem custom_get_dev_loss_empty_dev_set:
  "(batch_generator e bp hp ap True = [] \<longrightarrow>
      custom_get_dev_loss e s bp hp ap = Inl ZeroDivisionError)
   \<and> (batch_generator e bp hp ap True \<noteq> [] \<longrightarrow>
      (\<forall>b\<in>set (batch_generator e bp hp ap True). 0 < batch_size b) \<longrightarrow>
      (\<exists>v. custom_get_dev_loss e s bp hp ap = Inr v))"
proof (intro conjI impI)
  assume "batch_generator e bp hp ap True = []"
  then show "custom_get_dev_loss e s bp hp ap = Inl ZeroDivisionError"
    by (simp add: custom_get_dev_loss_eq)
next
  assume ne: "batch_generator e bp hp ap True \<noteq> []"
    and pos: "\<forall>b\<in>set (batch_generator e bp hp ap True). 0 < batch_size b"
  then obtain b bs where eq: "batch_generator e bp hp ap True = b # bs"
    by (cases "batch_generator e bp hp ap True") auto
  with pos have "0 < batch_size b" by simp
  then have "0 < (\<Sum>b\<leftarrow>batch_generator e bp hp ap True. batch_size b)"
    by (simp add: eq)
  then show "\<exists>v. custom_get_dev_loss e s bp hp ap = Inr v"
    by (simp add: custom_get_dev_loss_eq Let_def del: sum_list_eq_0_iff)
qed

theorem custom_get_dev_loss_empty_dev_set_witness:
  "custom_get_dev_loss (ex_env (ex_flags 1 1) ex_files (\<lambda>path g. True)) (0::nat) ''none'' ''dev_h'' ''dev_a''
     = Inl ZeroDivisionError
   \<and> (\<exists>v. custom_get_dev_loss (ex_env (ex_flags 1 1) ex_files (\<lambda>path g. True)) (0::nat)
         ''dev'' ''dev_h'' ''dev_a'' = Inr v)"
  using custom_get_dev_loss_empty_dev_set [where e = "ex_env (ex_flags 1 1) ex_files (\<lambda>path g. True)" and s = "0::nat"
      and bp = "''none''" and hp = "''dev_h''" and ap = "''dev_a''"]
    custom_get_dev_loss_empty_dev_set [where e = "ex_env (ex_flags 1 1) ex_files (\<lambda>path g. True)" and s = "0::nat"
      and bp = "''dev''" and hp = "''dev_h''" and ap = "''dev_a''"]
  by (simp add: ex_defs)

subsection \<open>C10: a sample limit above the size of the data set\<close>

text \<open>
  Claim C10. When \<open>num_samples\<close> exceeds the number of examples, the loop of
  \<open>check_score_cm\<close> runs through all batches and collects every label pair, with a
  positive count left over, and \<open>check_score_cm\<close> returns what \<open>report_score\<close> makes of
  these pairs.
\<close>

theorem check_score_cm_limit_above_size:
  assumes "batch_generator e body_path headline_path ans_path False = bs"
    and "list_all2 (labelled e s) bs pas"
    and "int (sum_list (map batch_size bs)) < n"
  shows "check_score_cm_loop e s n ([], [], n) bs =
           Inr (concat (map fst pas), concat (map snd pas), n - int (sum_list (map batch_size bs)))
         \<and> check_score_cm e s body_path headline_path ans_path n =
             report_score e (concat (map snd pas)) (concat (map fst pas))"
proof -
  have n: "0 < n" using assms(3) by linarith
  have len1: "length (concat (map fst pas)) = sum_list (map batch_size bs)"
    using assms(2) by (induction rule: list_all2_induct) (simp_all add: labelled_def)
  have len2: "length (concat (map snd pas)) = sum_list (map batch_size bs)"
    using assms(2) by (induction rule: list_all2_induct) (simp_all add: labelled_def)
  have loop: "check_score_cm_loop e s n ([], [], n) bs =
           Inr (concat (map fst pas), concat (map snd pas), n - int (sum_list (map batch_size bs)))"
    using loop_limit [OF assms(2) _ n, of n "[]" "[]"] n assms(3) len1 len2 by simp
  then show ?thesis using assms(1) by (simp add: check_score_cm_def bind_err_def)
qed

theorem check_score_cm_limit_above_size_witness:
  "check_score_cm (ex_env (ex_flags 1 1) ex_files (\<lambda>path g. True)) (0::nat)
     ''dev'' ''dev_h'' ''dev_a'' 1000 = Inr 2"
  using check_score_cm_limit_above_size
    [where e = "ex_env (ex_flags 1 1) ex_files (\<lambda>path g. True)" and s = "0::nat"
      and body_path = "''dev''" and headline_path = "''dev_h''" and ans_path = "''dev_a''"
      and bs = "ex_files ''dev''" and n = 1000
      and pas = "[([''discuss'', ''discuss'', ''discuss''], [''discuss'', ''agree'', ''discuss'']),
                  ([''discuss''], [''disagree''])]"]
  by (simp add: labelled_def label_defs ex_defs)

end
